theory Spec2Isabelle
  imports Complex_Main "HOL-Library.Code_Target_Numeral"
begin

section \<open>JavaScript values used by the health monitor\<close>

text \<open>
  The monitor is the class \<open>HealthMonitor\<close> of
  \<^verbatim>\<open>src/payments/fnb_eft/FNBEFTService.js\<close> (lines 249 to 1133). Its numbers are
  JavaScript numbers. A finite number is modelled by the rational it denotes, so the
  rounding of double arithmetic is not modelled; the three non-finite values are kept,
  because the code can produce them (\<open>0 / 0\<close> for an empty CPU list) and because
  \<open>NaN\<close> is falsy and compares false with everything.
\<close>

datatype jsnum = Num rat | PosInf | NegInf | NaN

text \<open>Truthiness of a number, as \<open>if (x)\<close> and \<open>x && ...\<close> read it.\<close>

fun truthy :: "jsnum \<Rightarrow> bool" where
  "truthy (Num r) = (r \<noteq> 0)"
| "truthy PosInf = True"
| "truthy NegInf = True"
| "truthy NaN = False"

text \<open>\<open>x > t\<close> for a finite threshold \<open>t\<close>.\<close>

fun js_gt :: "jsnum \<Rightarrow> rat \<Rightarrow> bool" where
  "js_gt (Num r) t = (t < r)"
| "js_gt PosInf t = True"
| "js_gt NegInf t = False"
| "js_gt NaN t = False"

text \<open>\<open>a / b\<close> for finite operands.\<close>

definition js_div :: "rat \<Rightarrow> rat \<Rightarrow> jsnum" where
  "js_div a b =
     (if b \<noteq> 0 then Num (a / b)
      else if a = 0 then NaN
      else if 0 < a then PosInf else NegInf)"

text \<open>\<open>x * c\<close> for a finite positive constant \<open>c\<close>.\<close>

fun js_scale :: "jsnum \<Rightarrow> rat \<Rightarrow> jsnum" where
  "js_scale (Num r) c = Num (r * c)"
| "js_scale PosInf c = PosInf"
| "js_scale NegInf c = NegInf"
| "js_scale NaN c = NaN"

text \<open>\<open>a + b\<close> and \<open>a - b\<close>.\<close>

fun js_add :: "jsnum \<Rightarrow> jsnum \<Rightarrow> jsnum" where
  "js_add (Num a) (Num b) = Num (a + b)"
| "js_add NaN b = NaN"
| "js_add a NaN = NaN"
| "js_add PosInf NegInf = NaN"
| "js_add NegInf PosInf = NaN"
| "js_add PosInf b = PosInf"
| "js_add NegInf b = NegInf"
| "js_add a PosInf = PosInf"
| "js_add a NegInf = NegInf"

fun js_neg :: "jsnum \<Rightarrow> jsnum" where
  "js_neg (Num a) = Num (- a)"
| "js_neg PosInf = NegInf"
| "js_neg NegInf = PosInf"
| "js_neg NaN = NaN"

definition js_sub :: "jsnum \<Rightarrow> jsnum \<Rightarrow> jsnum" where
  "js_sub a b = js_add a (js_neg b)"

text \<open>
  \<open>a / b\<close> in general. Signed zeros are not modelled: a zero divisor is read as
  \<open>+0\<close>, which is what a sum of non-negative counters and a list length give.
\<close>

fun js_quot :: "jsnum \<Rightarrow> jsnum \<Rightarrow> jsnum" where
  "js_quot (Num a) (Num b) = js_div a b"
| "js_quot NaN b = NaN"
| "js_quot a NaN = NaN"
| "js_quot PosInf (Num b) = (if b < 0 then NegInf else PosInf)"
| "js_quot NegInf (Num b) = (if b < 0 then PosInf else NegInf)"
| "js_quot (Num a) PosInf = Num 0"
| "js_quot (Num a) NegInf = Num 0"
| "js_quot PosInf PosInf = NaN"
| "js_quot PosInf NegInf = NaN"
| "js_quot NegInf PosInf = NaN"
| "js_quot NegInf NegInf = NaN"

text \<open>
  \<open>x.toFixed(2)\<close> picks the integer \<open>n\<close> for which \<open>n / 100 - x\<close> is closest to zero,
  the larger \<open>n\<close> on a tie, after taking the sign off; \<open>hundredths\<close> is that \<open>n\<close> for
  a non-negative \<open>x\<close>.
\<close>

definition hundredths :: "rat \<Rightarrow> nat" where
  "hundredths r = nat \<lfloor>r * 100 + 1 / 2\<rfloor>"

text \<open>\<open>parseFloat(x.toFixed(2))\<close>: the number rounded to two decimals.\<close>

fun round2 :: "jsnum \<Rightarrow> jsnum" where
  "round2 (Num r) =
     (if r < 0 then Num (- (of_nat (hundredths (- r)) / 100))
      else Num (of_nat (hundredths r) / 100))"
| "round2 PosInf = PosInf"
| "round2 NegInf = NegInf"
| "round2 NaN = NaN"

text \<open>Decimal digits of a natural number, as template literals print it.\<close>

definition digit_char :: "nat \<Rightarrow> char" where
  "digit_char d = ''0123456789'' ! (d mod 10)"

fun show_nat :: "nat \<Rightarrow> string" where
  "show_nat n = (if n < 10 then [digit_char n] else show_nat (n div 10) @ [digit_char n])"

declare show_nat.simps [simp del]

text \<open>The string \<open>x.toFixed(2)\<close> of a finite number below \<open>10^21\<close>.\<close>

definition toFixed2 :: "rat \<Rightarrow> string" where
  "toFixed2 r =
     (let n = hundredths \<bar>r\<bar>
      in (if r < 0 then ''-'' else '''') @ show_nat (n div 100) @ ''.''
         @ [digit_char (n div 10), digit_char n])"

text \<open>\<open>haystack.includes(needle)\<close>.\<close>

fun starts_with :: "string \<Rightarrow> string \<Rightarrow> bool" where
  "starts_with [] s = True"
| "starts_with (p # ps) [] = False"
| "starts_with (p # ps) (c # cs) = (p = c \<and> starts_with ps cs)"

fun js_includes :: "string \<Rightarrow> string \<Rightarrow> bool" where
  "js_includes [] needle = (needle = [])"
| "js_includes (c # cs) needle = (starts_with needle (c # cs) \<or> js_includes cs needle)"

section \<open>Data model\<close>

text \<open>
  Times are milliseconds since the epoch. An alert and a recovery record store
  \<open>new Date().toISOString()\<close> and read it back with \<open>new Date(ts).getTime()\<close>; the ISO
  string keeps the milliseconds, so the stored value is modelled by the number read back.
\<close>

type_synonym millis = int

record thresholds =
  th_cpu :: rat
  th_memory :: rat
  th_disk :: rat
  th_responseTime :: rat
  th_errorRate :: rat

text \<open>
  A service has a probe command or a port (a missing property is \<open>None\<close>) and a restart
  command.
\<close>

record service =
  svc_name :: string
  svc_command :: "string option"
  svc_port :: "nat option"
  svc_restart :: string

record endpoint =
  ep_url :: string
  ep_name :: string

record config =
  checkInterval :: nat
  alertThresholds :: thresholds
  services :: "service list"
  endpoints :: "endpoint list"

definition default_thresholds :: thresholds where
  "default_thresholds =
     \<lparr>th_cpu = 80, th_memory = 85, th_disk = 90, th_responseTime = 5000, th_errorRate = 5\<rparr>"

definition default_config :: config where
  "default_config =
     \<lparr>checkInterval = 60000,
      alertThresholds = default_thresholds,
      services =
        [\<lparr>svc_name = ''nginx'', svc_command = Some ''nginx -t'', svc_port = None,
          svc_restart = ''systemctl restart nginx''\<rparr>,
         \<lparr>svc_name = ''mongodb'', svc_command = Some ''mongod --version'', svc_port = None,
          svc_restart = ''systemctl restart mongodb''\<rparr>,
         \<lparr>svc_name = ''redis'', svc_command = Some ''redis-cli ping'', svc_port = None,
          svc_restart = ''systemctl restart redis''\<rparr>,
         \<lparr>svc_name = ''node_backend'', svc_command = None, svc_port = Some 5000,
          svc_restart = ''pm2 restart jobai-backend''\<rparr>,
         \<lparr>svc_name = ''node_frontend'', svc_command = None, svc_port = Some 3000,
          svc_restart = ''pm2 restart jobai-frontend''\<rparr>],
      endpoints =
        [\<lparr>ep_url = ''http://localhost:5000/health'', ep_name = ''Backend API''\<rparr>,
         \<lparr>ep_url = ''http://localhost:3000'', ep_name = ''Frontend''\<rparr>,
         \<lparr>ep_url = ''http://localhost/api/health'', ep_name = ''Nginx Proxy''\<rparr>]\<rparr>"

text \<open>The samples kept in \<open>this.metrics\<close>.\<close>

record cpu_sample =
  cs_timestamp :: millis
  cs_usage :: jsnum
  cs_cores :: nat

record memory_sample =
  ms_timestamp :: millis
  ms_usage :: jsnum
  ms_total :: string
  ms_used :: string
  ms_free :: string

record disk_sample =
  ds_timestamp :: millis
  ds_usage :: jsnum
  ds_total :: string
  ds_used :: string
  ds_available :: string

record response =
  rs_timestamp :: millis
  rs_time :: rat
  rs_status :: nat

record error_entry =
  ee_timestamp :: millis
  ee_error :: string

text \<open>
  \<open>responseTimes\<close> and \<open>errors\<close> are objects keyed by endpoint name; the association
  list keeps the order in which \<open>Object.entries\<close> lists the keys, each key once.
\<close>

record metrics =
  m_cpu :: "cpu_sample list"
  m_memory :: "memory_sample list"
  m_disk :: "disk_sample list"
  m_responseTimes :: "(string \<times> response list) list"
  m_errors :: "(string \<times> error_entry list) list"
  m_uptime :: millis

text \<open>
  A severity is what \<open>getAlertSeverity\<close> returns: one of the strings of its table, or,
  for a type that names a property every object inherits, that inherited member.
\<close>

datatype severity = Sev string | Inherited string

text \<open>The payload of an alert; no operation of the monitor reads it.\<close>

datatype alert_data =
    UsageData jsnum rat millis
  | ServiceData string millis
  | ResponseTimeData string rat rat
  | EndpointStatusData string nat millis
  | EndpointErrorData string string millis

text \<open>
  An alert. Its \<open>id\<close>, built from the clock and \<open>Math.random()\<close>, is left out: the
  monitor only prints it, and alerts are told apart by their place in \<open>this.alerts\<close>,
  as the object references of the source are.
\<close>

record alert =
  al_type :: string
  al_severity :: severity
  al_data :: alert_data
  al_timestamp :: millis
  acknowledged :: bool

text \<open>
  A recovery record. The \<open>actions\<close> property of a disk cleanup record is a reference to
  the array the cleanup callbacks push to later, so it is an address into \<open>arrays\<close>.
\<close>

record recovery_action =
  action :: string
  ra_service :: "string option"
  ra_timestamp :: millis
  ra_actions :: "nat option"
  success :: bool
  ra_error :: "string option"

record monitor =
  cfg :: config
  metrics :: metrics
  alerts :: "alert list"
  recoveryActions :: "recovery_action list"
  arrays :: "string list list"

text \<open>The state the constructor builds at time \<open>now\<close>.\<close>

definition new_monitor :: "millis \<Rightarrow> monitor" where
  "new_monitor now =
     \<lparr>cfg = default_config,
      metrics = \<lparr>m_cpu = [], m_memory = [], m_disk = [], m_responseTimes = [],
                 m_errors = [], m_uptime = now\<rparr>,
      alerts = [],
      recoveryActions = [],
      arrays = []\<rparr>"

section \<open>AlertManager\<close>

text \<open>
  \<open>severityMap\<close> is an object literal, so \<open>severityMap[type]\<close> finds the eight own
  properties and, for any other key, the members inherited from \<open>Object.prototype\<close>.
  Those are functions (and, for \<open>__proto__\<close>, the prototype object), all truthy, so
  \<open>|| 'info'\<close> does not replace them.
\<close>

definition severityMap :: "(string \<times> string) list" where
  "severityMap =
     [(''HIGH_CPU'', ''warning''),
      (''HIGH_MEMORY'', ''warning''),
      (''HIGH_DISK'', ''critical''),
      (''SERVICE_DOWN'', ''critical''),
      (''SERVICE_RESTART_FAILED'', ''critical''),
      (''ENDPOINT_DOWN'', ''critical''),
      (''ENDPOINT_ERROR'', ''warning''),
      (''HIGH_RESPONSE_TIME'', ''warning'')]"

definition object_prototype_keys :: "string list" where
  "object_prototype_keys =
     [''constructor'', ''__proto__'', ''hasOwnProperty'', ''isPrototypeOf'',
      ''propertyIsEnumerable'', ''toLocaleString'', ''toString'', ''valueOf'',
      ''__defineGetter__'', ''__defineSetter__'', ''__lookupGetter__'',
      ''__lookupSetter__'']"

definition getAlertSeverity :: "string \<Rightarrow> severity" where
  "getAlertSeverity type =
     (case map_of severityMap type of
        Some s \<Rightarrow> Sev s
      | None \<Rightarrow> if type \<in> set object_prototype_keys then Inherited type else Sev ''info'')"

text \<open>
  \<open>triggerAlert(type, data)\<close> at time \<open>now\<close>: the alert is appended to \<open>this.alerts\<close>.
  \<open>sendAlertNotification\<close> only prints and builds a value nobody reads.
\<close>

definition make_alert :: "millis \<Rightarrow> string \<Rightarrow> alert_data \<Rightarrow> alert" where
  "make_alert now type d =
     \<lparr>al_type = type, al_severity = getAlertSeverity type, al_data = d,
      al_timestamp = now, acknowledged = False\<rparr>"

definition triggerAlert :: "millis \<Rightarrow> string \<Rightarrow> alert_data \<Rightarrow> monitor \<Rightarrow> monitor" where
  "triggerAlert now type d s = s\<lparr>alerts := alerts s @ [make_alert now type d]\<rparr>"

section \<open>The host\<close>

text \<open>
  What the monitor reads from its host while one piece of code runs: the clock,
  \<open>fs.existsSync\<close>, the outcome of a command run through \<open>executeCommand\<close> or
  \<open>checkServiceCommand\<close> (\<open>None\<close>: it exited with success; \<open>Some msg\<close>: \<open>exec\<close>
  reported the error \<open>msg\<close>), whether a TCP connection to a local port opens within two
  seconds, and what a GET of a URL gives within ten seconds (a status and the elapsed
  milliseconds, or an error). \<open>h_mem_throws\<close> and \<open>h_disk_throws\<close> say whether a
  statement inside the \<open>try\<close> block of the memory or disk cleanup raises before the
  record is pushed, and with which message.
\<close>

datatype http_out = HttpResponse nat rat | HttpError string

record host =
  h_now :: millis
  h_exists :: "string \<Rightarrow> bool"
  h_exec :: "string \<Rightarrow> string option"
  h_connect :: "nat \<Rightarrow> bool"
  h_get :: "string \<Rightarrow> http_out"
  h_mem_throws :: "string option"
  h_disk_throws :: "string option"

text \<open>The directories beside the module (\<open>path.join(__dirname, '..', name)\<close>).\<close>

definition cacheDir :: string where "cacheDir = ''../cache''"
definition logDir :: string where "logDir = ''../logs''"
definition backupDir :: string where "backupDir = ''../backups''"

section \<open>RecoveryEngine\<close>

definition push_recovery :: "recovery_action \<Rightarrow> monitor \<Rightarrow> monitor" where
  "push_recovery r s = s\<lparr>recoveryActions := recoveryActions s @ [r]\<rparr>"

text \<open>
  \<open>cleanupMemory\<close>. The function has no \<open>await\<close>, so it runs to its end when called.
  Calling \<open>global.gc\<close>, where the runtime has it, changes nothing of the monitor, and
  the \<open>rm -rf\<close> started when the cache directory exists reports to a callback that
  only prints.
\<close>

definition cleanupMemory_started :: "host \<Rightarrow> string list" where
  "cleanupMemory_started h = (if h_exists h cacheDir then [''rm -rf '' @ cacheDir @ ''/*''] else [])"

definition cleanupMemory :: "host \<Rightarrow> monitor \<Rightarrow> monitor" where
  "cleanupMemory h s =
     (case h_mem_throws h of
        None \<Rightarrow>
          push_recovery
            \<lparr>action = ''memory_cleanup'', ra_service = None, ra_timestamp = h_now h,
             ra_actions = None, success = True, ra_error = None\<rparr> s
      | Some msg \<Rightarrow>
          push_recovery
            \<lparr>action = ''memory_cleanup'', ra_service = None, ra_timestamp = h_now h,
             ra_actions = None, success = False, ra_error = Some msg\<rparr> s)"

text \<open>
  \<open>cleanupDisk\<close>. It creates the array \<open>cleanupActions\<close>, starts up to four commands
  with \<open>exec\<close>, and pushes the record, all in one synchronous run: \<open>exec\<close> calls its
  callback from the event loop, after the running code has returned. So the record's
  \<open>success\<close> is computed from the array as it is at the push, and the callbacks change
  the array (which the record's \<open>actions\<close> still refers to) afterwards.
\<close>

definition cleanupDisk_started :: "host \<Rightarrow> string list" where
  "cleanupDisk_started h =
     (if h_exists h logDir then [''logs_cleaned''] else [])
     @ [''temp_files_cleaned'']
     @ (if h_exists h backupDir then [''old_backups_cleaned''] else [])
     @ [''npm_cache_cleaned'']"

definition cleanupDisk :: "host \<Rightarrow> monitor \<Rightarrow> monitor" where
  "cleanupDisk h s =
     (case h_disk_throws h of
        None \<Rightarrow>
          (let cleanupActions = length (arrays s);
               s1 = s\<lparr>arrays := arrays s @ [[]]\<rparr>
           in push_recovery
                \<lparr>action = ''disk_cleanup'', ra_service = None, ra_timestamp = h_now h,
                 ra_actions = Some cleanupActions,
                 success = (0 < length (arrays s1 ! cleanupActions)),
                 ra_error = None\<rparr> s1)
      | Some msg \<Rightarrow>
          push_recovery
            \<lparr>action = ''disk_cleanup'', ra_service = None, ra_timestamp = h_now h,
             ra_actions = None, success = False, ra_error = Some msg\<rparr> s)"

text \<open>
  The callback of one of the commands \<open>cleanupDisk\<close> started, called later with the
  command's outcome: \<open>if (!error) cleanupActions.push(tag)\<close>.
\<close>

definition cleanup_callback :: "nat \<Rightarrow> string \<Rightarrow> bool \<Rightarrow> monitor \<Rightarrow> monitor" where
  "cleanup_callback cleanupActions tag failed s =
     (if failed then s
      else s\<lparr>arrays := (arrays s)[cleanupActions := arrays s ! cleanupActions @ [tag]]\<rparr>)"

text \<open>The callbacks of a cleanup, run in the order their commands finish.\<close>

fun cleanup_callbacks :: "nat \<Rightarrow> (string \<times> bool) list \<Rightarrow> monitor \<Rightarrow> monitor" where
  "cleanup_callbacks a [] s = s"
| "cleanup_callbacks a ((tag, failed) # cbs) s =
     cleanup_callbacks a cbs (cleanup_callback a tag failed s)"

text \<open>
  \<open>restartApplication\<close>: \<open>pm2 stop all\<close>, five seconds, \<open>pm2 start all\<close>; the first
  command that fails ends the attempt. \<open>h_now\<close> is the clock when the record is pushed.
\<close>

definition restartApplication :: "host \<Rightarrow> monitor \<Rightarrow> monitor" where
  "restartApplication h s =
     (case h_exec h ''pm2 stop all'' of
        Some msg \<Rightarrow>
          push_recovery
            \<lparr>action = ''application_restart'', ra_service = None, ra_timestamp = h_now h,
             ra_actions = None, success = False, ra_error = Some msg\<rparr> s
      | None \<Rightarrow>
          (case h_exec h ''pm2 start all'' of
             Some msg \<Rightarrow>
               push_recovery
                 \<lparr>action = ''application_restart'', ra_service = None,
                  ra_timestamp = h_now h, ra_actions = None, success = False,
                  ra_error = Some msg\<rparr> s
           | None \<Rightarrow>
               push_recovery
                 \<lparr>action = ''application_restart'', ra_service = None,
                  ra_timestamp = h_now h, ra_actions = None, success = True,
                  ra_error = None\<rparr> s))"

text \<open>
  \<open>attemptAutoRecovery\<close>. The filter runs over \<open>this.alerts\<close> and reads the clock for
  each alert it tests (\<open>now i\<close> for the alert at index \<open>i\<close>); the loop then visits the
  selected alert objects in order. An alert is named by its index in \<open>this.alerts\<close>,
  and \<open>hs i\<close> is the host as the remediation of the alert at \<open>i\<close> sees it. No other
  timer's code is interleaved with the sweep in this model.
\<close>

definition selected :: "millis \<Rightarrow> alert \<Rightarrow> bool" where
  "selected now a =
     (al_severity a = Sev ''critical'' \<and> \<not> acknowledged a \<and> 300000 < now - al_timestamp a)"

definition criticalAlerts :: "(nat \<Rightarrow> millis) \<Rightarrow> alert list \<Rightarrow> nat list" where
  "criticalAlerts now as = filter (\<lambda>i. selected (now i) (as ! i)) [0..<length as]"

definition dispatch :: "host \<Rightarrow> string \<Rightarrow> monitor \<Rightarrow> monitor" where
  "dispatch h type s =
     (if type = ''HIGH_DISK'' then cleanupDisk h s
      else if type = ''HIGH_MEMORY'' then cleanupMemory h s
      else if type = ''SERVICE_DOWN'' then s
      else if type = ''ENDPOINT_DOWN'' then restartApplication h s
      else s)"

definition acknowledge_at :: "nat \<Rightarrow> monitor \<Rightarrow> monitor" where
  "acknowledge_at i s = s\<lparr>alerts := (alerts s)[i := (alerts s ! i)\<lparr>acknowledged := True\<rparr>]\<rparr>"

definition recover_one :: "(nat \<Rightarrow> host) \<Rightarrow> monitor \<Rightarrow> nat \<Rightarrow> monitor" where
  "recover_one hs s i = acknowledge_at i (dispatch (hs i) (al_type (alerts s ! i)) s)"

definition attemptAutoRecovery :: "(nat \<Rightarrow> millis) \<Rightarrow> (nat \<Rightarrow> host) \<Rightarrow> monitor \<Rightarrow> monitor" where
  "attemptAutoRecovery now hs s = foldl (recover_one hs) s (criticalAlerts now (alerts s))"

section \<open>Reading the output of host commands\<close>

text \<open>
  Strings are byte strings here, so the white space of \<open>trim\<close>, \<open>\\s\<close>,
  \<open>parseInt\<close> and \<open>parseFloat\<close> is the ASCII white space.
\<close>

definition is_space :: "char \<Rightarrow> bool" where
  "is_space c = ((of_char c :: nat) \<in> {9, 10, 11, 12, 13, 32})"

definition trim :: "string \<Rightarrow> string" where
  "trim s = rev (dropWhile is_space (rev (dropWhile is_space s)))"

text \<open>\<open>s.split(sep)\<close> for a one-character separator.\<close>

fun split_on :: "char \<Rightarrow> string \<Rightarrow> string list" where
  "split_on sep [] = [[]]"
| "split_on sep (c # cs) =
     (if c = sep then [] # split_on sep cs
      else (case split_on sep cs of [] \<Rightarrow> [[c]] | w # ws \<Rightarrow> (c # w) # ws))"

text \<open>
  \<open>s.split(/\\s+/)\<close>: the pieces between maximal runs of white space. The flag says
  that the previous character belonged to such a run.
\<close>

fun split_ws_from :: "bool \<Rightarrow> string \<Rightarrow> string list" where
  "split_ws_from in_sep [] = [[]]"
| "split_ws_from in_sep (c # cs) =
     (if is_space c then
        (if in_sep then split_ws_from True cs else [] # split_ws_from True cs)
      else (case split_ws_from False cs of [] \<Rightarrow> [[c]] | w # ws \<Rightarrow> (c # w) # ws))"

definition split_ws :: "string \<Rightarrow> string list" where
  "split_ws s = split_ws_from False s"

text \<open>\<open>parts.join(' ')\<close>.\<close>

fun join_space :: "string list \<Rightarrow> string" where
  "join_space [] = []"
| "join_space [w] = w"
| "join_space (w # v # ws) = w @ '' '' @ join_space (v # ws)"

definition dec_digit :: "char \<Rightarrow> nat option" where
  "dec_digit c =
     (let n = (of_char c :: nat) in if 48 \<le> n \<and> n \<le> 57 then Some (n - 48) else None)"

definition hex_digit :: "char \<Rightarrow> nat option" where
  "hex_digit c =
     (let n = (of_char c :: nat)
      in if 48 \<le> n \<and> n \<le> 57 then Some (n - 48)
         else if 65 \<le> n \<and> n \<le> 70 then Some (n - 55)
         else if 97 \<le> n \<and> n \<le> 102 then Some (n - 87)
         else None)"

fun digits_prefix :: "(char \<Rightarrow> nat option) \<Rightarrow> string \<Rightarrow> nat list" where
  "digits_prefix f [] = []"
| "digits_prefix f (c # cs) =
     (case f c of None \<Rightarrow> [] | Some d \<Rightarrow> d # digits_prefix f cs)"

definition from_digits :: "nat \<Rightarrow> nat list \<Rightarrow> nat" where
  "from_digits base ds = foldl (\<lambda>acc d. acc * base + d) 0 ds"

text \<open>
  \<open>parseInt(s)\<close> with no radix: leading white space, a sign, \<open>0x\<close> for base 16, then
  the longest run of digits, \<open>NaN\<close> when there is none.
\<close>

definition parse_unsigned :: "string \<Rightarrow> jsnum" where
  "parse_unsigned s =
     (if starts_with ''0x'' s \<or> starts_with ''0X'' s then
        (let ds = digits_prefix hex_digit (drop 2 s)
         in if ds = [] then NaN else Num (of_nat (from_digits 16 ds)))
      else
        (let ds = digits_prefix dec_digit s
         in if ds = [] then NaN else Num (of_nat (from_digits 10 ds))))"

definition parseInt :: "string \<Rightarrow> jsnum" where
  "parseInt s =
     (case dropWhile is_space s of
        [] \<Rightarrow> NaN
      | c # cs \<Rightarrow>
          if c = CHR ''-'' then js_neg (parse_unsigned cs)
          else if c = CHR ''+'' then parse_unsigned cs
          else parse_unsigned (c # cs))"

text \<open>
  \<open>parseFloat(s)\<close>: leading white space, a sign, then \<open>Infinity\<close> or the longest
  decimal literal: digits, a point and digits (one of the two runs may be empty), and an
  exponent when digits follow its \<open>e\<close>.
\<close>

definition parse_exponent :: "string \<Rightarrow> int" where
  "parse_exponent s =
     (case s of
        [] \<Rightarrow> 0
      | c # cs \<Rightarrow>
          if c = CHR ''e'' \<or> c = CHR ''E'' then
            (case cs of
               [] \<Rightarrow> 0
             | d # ds \<Rightarrow>
                 if d = CHR ''-'' then - int (from_digits 10 (digits_prefix dec_digit ds))
                 else if d = CHR ''+'' then int (from_digits 10 (digits_prefix dec_digit ds))
                 else int (from_digits 10 (digits_prefix dec_digit (d # ds))))
          else 0)"

definition pow10 :: "rat \<Rightarrow> int \<Rightarrow> rat" where
  "pow10 m e = (if 0 \<le> e then m * 10 ^ nat e else m / 10 ^ nat (- e))"

definition parse_decimal :: "string \<Rightarrow> jsnum" where
  "parse_decimal s =
     (if starts_with ''Infinity'' s then PosInf
      else
        (let ds1 = digits_prefix dec_digit s;
             r1 = drop (length ds1) s;
             has_point = starts_with ''.'' r1;
             ds2 = (if has_point then digits_prefix dec_digit (drop 1 r1) else []);
             r2 = (if has_point then drop (1 + length ds2) r1 else r1)
         in if ds1 = [] \<and> ds2 = [] then NaN
            else Num (pow10 (of_nat (from_digits 10 ds1)
                             + of_nat (from_digits 10 ds2) / 10 ^ length ds2)
                            (parse_exponent r2))))"

definition parseFloat :: "string \<Rightarrow> jsnum" where
  "parseFloat s =
     (case dropWhile is_space s of
        [] \<Rightarrow> NaN
      | c # cs \<Rightarrow>
          if c = CHR ''-'' then js_neg (parse_decimal cs)
          else if c = CHR ''+'' then parse_decimal cs
          else parse_decimal (c # cs))"

text \<open>What \<open>exec\<close> hands to its callback: an error, or the standard output.\<close>

datatype exec_out = ExecError string | ExecOk string

section \<open>MetricsCollector\<close>

text \<open>One entry of \<open>os.cpus()\<close>: the five counters of \<open>cpu.times\<close>.\<close>

record cpu_times =
  t_user :: nat
  t_nice :: nat
  t_sys :: nat
  t_idle :: nat
  t_irq :: nat

record iface =
  if_name :: string
  if_mtu :: string
  rx_ok :: jsnum
  rx_err :: jsnum
  rx_drp :: jsnum
  rx_ovr :: jsnum
  tx_ok :: jsnum
  tx_err :: jsnum
  tx_drp :: jsnum
  tx_ovr :: jsnum

record process =
  p_user :: string
  p_pid :: jsnum
  p_cpu :: jsnum
  p_mem :: jsnum
  p_command :: string

text \<open>
  The value a check resolves with. Only the first three have a \<open>usage\<close> property.
\<close>

datatype check_value =
    CpuValue jsnum nat
  | MemoryValue jsnum nat int nat
  | DiskValue jsnum string string string
  | NetworkValue "iface list"
  | ProcessValue nat "process list"

fun usage_of :: "check_value \<Rightarrow> jsnum option" where
  "usage_of (CpuValue u c) = Some u"
| "usage_of (MemoryValue u t us f) = Some u"
| "usage_of (DiskValue u t us a) = Some u"
| "usage_of (NetworkValue is) = None"
| "usage_of (ProcessValue n ps) = None"

text \<open>
  How a check's promise ends: fulfilled, rejected, or never settled because the \<open>exec\<close>
  callback itself raised (an uncaught exception of the process).
\<close>

datatype check_result = Fulfilled check_value | Rejected string | Uncaught string

definition push_cpu :: "cpu_sample \<Rightarrow> monitor \<Rightarrow> monitor" where
  "push_cpu x s = s\<lparr>metrics := (metrics s)\<lparr>m_cpu := m_cpu (metrics s) @ [x]\<rparr>\<rparr>"

definition push_memory :: "memory_sample \<Rightarrow> monitor \<Rightarrow> monitor" where
  "push_memory x s = s\<lparr>metrics := (metrics s)\<lparr>m_memory := m_memory (metrics s) @ [x]\<rparr>\<rparr>"

definition push_disk :: "disk_sample \<Rightarrow> monitor \<Rightarrow> monitor" where
  "push_disk x s = s\<lparr>metrics := (metrics s)\<lparr>m_disk := m_disk (metrics s) @ [x]\<rparr>\<rparr>"

definition ticks :: "cpu_times \<Rightarrow> nat" where
  "ticks c = t_user c + t_nice c + t_sys c + t_idle c + t_irq c"

definition checkCPU :: "millis \<Rightarrow> cpu_times list \<Rightarrow> monitor \<Rightarrow> check_result \<times> monitor" where
  "checkCPU now cpus s =
     (let totalIdle = sum_list (map t_idle cpus);
          totalTick = sum_list (map ticks cpus);
          idle = js_div (of_nat totalIdle) (of_nat (length cpus));
          total = js_div (of_nat totalTick) (of_nat (length cpus));
          usage = js_scale (js_quot (js_sub total idle) total) 100
      in (Fulfilled (CpuValue usage (length cpus)),
          push_cpu \<lparr>cs_timestamp = now, cs_usage = round2 usage, cs_cores = length cpus\<rparr> s))"

text \<open>\<open>formatBytes\<close>: divide by 1024 while the value is at least 1024, at most four times.\<close>

function formatBytes_loop :: "rat \<Rightarrow> nat \<Rightarrow> rat \<times> nat" where
  "formatBytes_loop v unitIndex =
     (if 1024 \<le> v \<and> unitIndex < 4 then formatBytes_loop (v / 1024) (unitIndex + 1)
      else (v, unitIndex))"
  by pat_completeness auto
termination
  by (relation "measure (\<lambda>(v, unitIndex). 4 - unitIndex)") auto

declare formatBytes_loop.simps [simp del]

definition units :: "string list" where
  "units = [''B'', ''KB'', ''MB'', ''GB'', ''TB'']"

definition formatBytes :: "rat \<Rightarrow> string" where
  "formatBytes bytes =
     (case formatBytes_loop bytes 0 of (v, unitIndex) \<Rightarrow> toFixed2 v @ '' '' @ units ! unitIndex)"

definition checkMemory :: "millis \<Rightarrow> nat \<Rightarrow> nat \<Rightarrow> monitor \<Rightarrow> check_result \<times> monitor" where
  "checkMemory now totalmem freemem s =
     (let used = int totalmem - int freemem;
          usage = js_scale (js_div (of_int used) (of_nat totalmem)) 100
      in (Fulfilled (MemoryValue usage totalmem used freemem),
          push_memory
            \<lparr>ms_timestamp = now, ms_usage = round2 usage,
             ms_total = formatBytes (of_nat totalmem),
             ms_used = formatBytes (of_int used),
             ms_free = formatBytes (of_nat freemem)\<rparr> s))"

text \<open>
  \<open>checkDisk\<close>, from the outcome of \<open>df -h /\<close>. When the second line has fewer than
  five fields, \<open>parts[4]\<close> is undefined and \<open>.replace\<close> raises inside the callback.
\<close>

definition checkDisk :: "millis \<Rightarrow> exec_out \<Rightarrow> monitor \<Rightarrow> check_result \<times> monitor" where
  "checkDisk now out s =
     (case out of
        ExecError msg \<Rightarrow> (Rejected msg, s)
      | ExecOk stdout \<Rightarrow>
          (let lines = split_on (CHR 0x0A) (trim stdout)
           in if 1 < length lines then
                (let parts = split_ws (lines ! 1)
                 in if length parts \<le> 4 then (Uncaught ''TypeError'', s)
                    else
                      (let usage = parseInt (remove1 (CHR ''%'') (parts ! 4))
                       in (Fulfilled (DiskValue usage (parts ! 1) (parts ! 2) (parts ! 3)),
                           push_disk
                             \<lparr>ds_timestamp = now, ds_usage = usage, ds_total = parts ! 1,
                              ds_used = parts ! 2, ds_available = parts ! 3\<rparr> s)))
              else (Rejected ''Could not parse disk usage'', s)))"

text \<open>
  \<open>checkNetwork\<close>, from the outcome of \<open>netstat -i\<close>: the lines after the first with
  at least ten fields. Nothing is written to \<open>this.metrics\<close>.
\<close>

definition mk_iface :: "string list \<Rightarrow> iface" where
  "mk_iface parts =
     \<lparr>if_name = parts ! 0, if_mtu = parts ! 1,
      rx_ok = parseInt (parts ! 2), rx_err = parseInt (parts ! 3),
      rx_drp = parseInt (parts ! 4), rx_ovr = parseInt (parts ! 5),
      tx_ok = parseInt (parts ! 6), tx_err = parseInt (parts ! 7),
      tx_drp = parseInt (parts ! 8), tx_ovr = parseInt (parts ! 9)\<rparr>"

definition checkNetwork :: "exec_out \<Rightarrow> monitor \<Rightarrow> check_result \<times> monitor" where
  "checkNetwork out s =
     (case out of
        ExecError msg \<Rightarrow> (Rejected msg, s)
      | ExecOk stdout \<Rightarrow>
          (let lines = split_on (CHR 0x0A) (trim stdout);
               interfaces =
                 map mk_iface (filter (\<lambda>parts. 10 \<le> length parts) (map split_ws (tl lines)))
           in (Fulfilled (NetworkValue interfaces), s)))"

text \<open>
  \<open>checkProcesses\<close>, from the outcome of \<open>ps aux\<close>: the lines after the first with at
  least eleven fields, and among them the application's processes. Nothing is written
  to \<open>this.metrics\<close>.
\<close>

definition mk_process :: "string list \<Rightarrow> process" where
  "mk_process parts =
     \<lparr>p_user = parts ! 0, p_pid = parseInt (parts ! 1), p_cpu = parseFloat (parts ! 2),
      p_mem = parseFloat (parts ! 3), p_command = join_space (drop 10 parts)\<rparr>"

definition is_app_process :: "process \<Rightarrow> bool" where
  "is_app_process p =
     (js_includes (p_command p) ''node'' \<or> js_includes (p_command p) ''nginx''
      \<or> js_includes (p_command p) ''mongod'' \<or> js_includes (p_command p) ''redis'')"

definition checkProcesses :: "exec_out \<Rightarrow> monitor \<Rightarrow> check_result \<times> monitor" where
  "checkProcesses out s =
     (case out of
        ExecError msg \<Rightarrow> (Rejected msg, s)
      | ExecOk stdout \<Rightarrow>
          (let lines = split_on (CHR 0x0A) (trim stdout);
               processes =
                 map mk_process (filter (\<lambda>parts. 11 \<le> length parts) (map split_ws (tl lines)));
               appProcesses = filter is_app_process processes
           in (Fulfilled (ProcessValue (length processes) appProcesses), s)))"

section \<open>Alert evaluation\<close>

text \<open>
  \<open>analyzeMetrics(metrics)\<close> is called with the value of each fulfilled check. Each of
  its three tests reads the same property \<open>metrics.usage\<close>; nothing in the value says
  which check produced it. \<open>cleanupMemory\<close> and \<open>cleanupDisk\<close> are called without
  \<open>await\<close> and run to their end at the call.
\<close>

definition exceeds :: "check_value \<Rightarrow> rat \<Rightarrow> bool" where
  "exceeds v t = (case usage_of v of None \<Rightarrow> False | Some u \<Rightarrow> truthy u \<and> js_gt u t)"

definition usage_data :: "host \<Rightarrow> check_value \<Rightarrow> rat \<Rightarrow> alert_data" where
  "usage_data h v t = UsageData (case usage_of v of None \<Rightarrow> NaN | Some u \<Rightarrow> u) t (h_now h)"

definition analyzeMetrics :: "host \<Rightarrow> check_value \<Rightarrow> monitor \<Rightarrow> monitor" where
  "analyzeMetrics h v s =
     (let th = alertThresholds (cfg s);
          s1 = (if exceeds v (th_cpu th)
                then triggerAlert (h_now h) ''HIGH_CPU'' (usage_data h v (th_cpu th)) s
                else s);
          s2 = (if exceeds v (th_memory th)
                then cleanupMemory h
                       (triggerAlert (h_now h) ''HIGH_MEMORY'' (usage_data h v (th_memory th)) s1)
                else s1);
          s3 = (if exceeds v (th_disk th)
                then cleanupDisk h
                       (triggerAlert (h_now h) ''HIGH_DISK'' (usage_data h v (th_disk th)) s2)
                else s2)
      in s3)"

text \<open>
  The types of the alerts \<open>analyzeMetrics\<close> raises for the result of a check, in the
  order it raises them; a check that was rejected is not analysed.
\<close>

definition raised_types :: "thresholds \<Rightarrow> check_result \<Rightarrow> string list" where
  "raised_types th r =
     (case r of
        Fulfilled v \<Rightarrow>
          (if exceeds v (th_cpu th) then [''HIGH_CPU''] else [])
          @ (if exceeds v (th_memory th) then [''HIGH_MEMORY''] else [])
          @ (if exceeds v (th_disk th) then [''HIGH_DISK''] else [])
      | _ \<Rightarrow> [])"

section \<open>ServiceHealthChecker\<close>

text \<open>
  The probe of \<open>checkServices\<close> and of the verification in \<open>restartService\<close>:
  \<open>service.command\<close> when it is a non-empty string, else \<open>service.port\<close> when it is
  a non-zero number, else the service counts as unhealthy.
\<close>

definition probe_port :: "host \<Rightarrow> service \<Rightarrow> bool" where
  "probe_port h svc =
     (case svc_port svc of None \<Rightarrow> False | Some p \<Rightarrow> p \<noteq> 0 \<and> h_connect h p)"

definition isHealthy :: "host \<Rightarrow> service \<Rightarrow> bool" where
  "isHealthy h svc =
     (case svc_command svc of
        None \<Rightarrow> probe_port h svc
      | Some c \<Rightarrow> if c \<noteq> [] then h_exec h c = None else probe_port h svc)"

text \<open>
  \<open>restartService\<close> up to the point where it returns: the restart command, then the
  record. After a command that succeeded it also sets a timer of ten seconds; the
  second component lists the services whose verification is now pending.
\<close>

definition restartService :: "host \<Rightarrow> service \<Rightarrow> monitor \<Rightarrow> monitor \<times> service list" where
  "restartService h svc s =
     (case h_exec h (svc_restart svc) of
        None \<Rightarrow>
          (push_recovery
             \<lparr>action = ''service_restart'', ra_service = Some (svc_name svc),
              ra_timestamp = h_now h, ra_actions = None, success = True, ra_error = None\<rparr> s,
           [svc])
      | Some msg \<Rightarrow>
          (push_recovery
             \<lparr>action = ''service_restart'', ra_service = Some (svc_name svc),
              ra_timestamp = h_now h, ra_actions = None, success = False,
              ra_error = Some msg\<rparr> s,
           []))"

text \<open>The timer's callback, run ten seconds later on the host \<open>h\<close> of that moment.\<close>

definition verifyRestart :: "host \<Rightarrow> service \<Rightarrow> monitor \<Rightarrow> monitor" where
  "verifyRestart h svc s =
     (if \<not> isHealthy h svc
      then triggerAlert (h_now h) ''SERVICE_RESTART_FAILED'' (ServiceData (svc_name svc) (h_now h)) s
      else s)"

text \<open>
  \<open>checkServices\<close>: the body of the loop for one service, and the loop over
  \<open>this.config.services\<close>; \<open>hs i\<close> is the host while the service at index \<open>i\<close> is
  handled. The monitor keeps no record of a service's previous state.
\<close>

definition check_service :: "host \<Rightarrow> service \<Rightarrow> monitor \<Rightarrow> monitor \<times> service list" where
  "check_service h svc s =
     (if \<not> isHealthy h svc
      then restartService h svc
             (triggerAlert (h_now h) ''SERVICE_DOWN'' (ServiceData (svc_name svc) (h_now h)) s)
      else (s, []))"

fun checkServices_loop ::
  "(nat \<Rightarrow> host) \<Rightarrow> nat \<Rightarrow> service list \<Rightarrow> monitor \<times> service list \<Rightarrow> monitor \<times> service list"
where
  "checkServices_loop hs i [] acc = acc"
| "checkServices_loop hs i (svc # rest) (s, timers) =
     (case check_service (hs i) svc s of
        (s', new) \<Rightarrow> checkServices_loop hs (Suc i) rest (s', timers @ new))"

definition checkServices :: "(nat \<Rightarrow> host) \<Rightarrow> monitor \<Rightarrow> monitor \<times> service list" where
  "checkServices hs s = checkServices_loop hs 0 (services (cfg s)) (s, [])"

section \<open>EndpointHealthChecker\<close>

text \<open>
  \<open>obj[name].push(x)\<close> after \<open>if (!obj[name]) obj[name] = []\<close>, for a name that is not
  the name of an inherited member: a new key goes last.
\<close>

fun push_entry :: "string \<Rightarrow> 'a \<Rightarrow> (string \<times> 'a list) list \<Rightarrow> (string \<times> 'a list) list" where
  "push_entry k v [] = [(k, [v])]"
| "push_entry k v ((k', vs) # rest) =
     (if k = k' then (k', vs @ [v]) # rest else (k', vs) # push_entry k v rest)"

definition endpoint_failed :: "host \<Rightarrow> endpoint \<Rightarrow> string \<Rightarrow> monitor \<Rightarrow> monitor" where
  "endpoint_failed h ep msg s =
     triggerAlert (h_now h) ''ENDPOINT_DOWN'' (EndpointErrorData (ep_name ep) msg (h_now h))
       (s\<lparr>metrics := (metrics s)\<lparr>m_errors :=
            push_entry (ep_name ep) \<lparr>ee_timestamp = h_now h, ee_error = msg\<rparr>
              (m_errors (metrics s))\<rparr>\<rparr>)"

text \<open>
  One endpoint. \<open>validateStatus\<close> makes the request fail for a status of 500 or more,
  with the message of the library.
\<close>

definition check_endpoint :: "host \<Rightarrow> endpoint \<Rightarrow> monitor \<Rightarrow> monitor" where
  "check_endpoint h ep s =
     (case h_get h (ep_url ep) of
        HttpError msg \<Rightarrow> endpoint_failed h ep msg s
      | HttpResponse status responseTime \<Rightarrow>
          if status < 500 then
            (let th = th_responseTime (alertThresholds (cfg s));
                 s1 = s\<lparr>metrics := (metrics s)\<lparr>m_responseTimes :=
                        push_entry (ep_name ep)
                          \<lparr>rs_timestamp = h_now h, rs_time = responseTime, rs_status = status\<rparr>
                          (m_responseTimes (metrics s))\<rparr>\<rparr>;
                 s2 = (if th < responseTime
                       then triggerAlert (h_now h) ''HIGH_RESPONSE_TIME''
                              (ResponseTimeData (ep_name ep) responseTime th) s1
                       else s1);
                 s3 = (if 400 \<le> status
                       then triggerAlert (h_now h) ''ENDPOINT_ERROR''
                              (EndpointStatusData (ep_name ep) status (h_now h)) s2
                       else s2)
             in s3)
          else endpoint_failed h ep (''Request failed with status code '' @ show_nat status) s)"

fun checkEndpoints_loop :: "(nat \<Rightarrow> host) \<Rightarrow> nat \<Rightarrow> endpoint list \<Rightarrow> monitor \<Rightarrow> monitor" where
  "checkEndpoints_loop hs i [] s = s"
| "checkEndpoints_loop hs i (ep # rest) s =
     checkEndpoints_loop hs (Suc i) rest (check_endpoint (hs i) ep s)"

definition checkEndpoints :: "(nat \<Rightarrow> host) \<Rightarrow> monitor \<Rightarrow> monitor" where
  "checkEndpoints hs s = checkEndpoints_loop hs 0 (endpoints (cfg s)) s"

section \<open>RetentionManager\<close>

text \<open>
  \<open>cleanupOldMetrics\<close> reads the clock three times: for \<open>oneHourAgo\<close>, for
  \<open>oneDayAgo\<close> and, after the first four filters, for \<open>sevenDaysAgo\<close>.
\<close>

definition cleanupOldMetrics :: "millis \<Rightarrow> millis \<Rightarrow> millis \<Rightarrow> monitor \<Rightarrow> monitor" where
  "cleanupOldMetrics now1 now2 now3 s =
     (let oneHourAgo = now1 - 3600000;
          oneDayAgo = now2 - 86400000;
          sevenDaysAgo = now3 - 604800000
      in s\<lparr>metrics := (metrics s)
             \<lparr>m_cpu := filter (\<lambda>m. oneHourAgo < cs_timestamp m) (m_cpu (metrics s)),
              m_memory := filter (\<lambda>m. oneHourAgo < ms_timestamp m) (m_memory (metrics s)),
              m_disk := filter (\<lambda>m. oneHourAgo < ds_timestamp m) (m_disk (metrics s))\<rparr>,
           alerts := filter (\<lambda>a. oneDayAgo < al_timestamp a) (alerts s),
           recoveryActions :=
             filter (\<lambda>r. sevenDaysAgo < ra_timestamp r) (recoveryActions s)\<rparr>)"

section \<open>The system check cycle\<close>

text \<open>\<open>formatUptime\<close> and the status line \<open>logStatus\<close> appends to the day's log file.\<close>

definition show_int :: "int \<Rightarrow> string" where
  "show_int i = (if i < 0 then ''-'' @ show_nat (nat (- i)) else show_nat (nat i))"

definition formatUptime :: "int \<Rightarrow> string" where
  "formatUptime ms =
     (let seconds = ms div 1000;
          minutes = seconds div 60;
          hours = minutes div 60;
          days = hours div 24
      in if 0 < days then show_int days @ ''d '' @ show_int (hours mod 24) @ ''h''
         else if 0 < hours then show_int hours @ ''h '' @ show_int (minutes mod 60) @ ''m''
         else if 0 < minutes then show_int minutes @ ''m '' @ show_int (seconds mod 60) @ ''s''
         else show_int seconds @ ''s'')"

text \<open>The \<open>usage\<close> of the last sample of a list, \<open>0\<close> for an empty list.\<close>

definition current_usage :: "('a \<Rightarrow> jsnum) \<Rightarrow> 'a list \<Rightarrow> jsnum" where
  "current_usage f xs = (if 0 < length xs then f (xs ! (length xs - 1)) else Num 0)"

record status =
  st_timestamp :: millis
  st_uptime :: string
  st_alerts_total :: nat
  st_alerts_critical :: nat
  st_alerts_warning :: nat
  st_recoveryActions :: nat
  st_cpu :: jsnum
  st_memory :: jsnum
  st_disk :: jsnum

definition logStatus :: "millis \<Rightarrow> monitor \<Rightarrow> status" where
  "logStatus now s =
     \<lparr>st_timestamp = now,
      st_uptime = formatUptime (now - m_uptime (metrics s)),
      st_alerts_total = length (alerts s),
      st_alerts_critical = length (filter (\<lambda>a. al_severity a = Sev ''critical'') (alerts s)),
      st_alerts_warning = length (filter (\<lambda>a. al_severity a = Sev ''warning'') (alerts s)),
      st_recoveryActions = length (recoveryActions s),
      st_cpu = current_usage cs_usage (m_cpu (metrics s)),
      st_memory = current_usage ms_usage (m_memory (metrics s)),
      st_disk = current_usage ds_usage (m_disk (metrics s))\<rparr>"

text \<open>
  What one cycle reads for its five checks: the clock when \<open>checkCPU\<close> and
  \<open>checkMemory\<close> run, the CPU counters, the memory sizes, and the outcomes of the three
  commands (with the clock when \<open>df\<close> reports).
\<close>

record check_inputs =
  ci_now :: millis
  ci_cpus :: "cpu_times list"
  ci_totalmem :: nat
  ci_freemem :: nat
  ci_df :: exec_out
  ci_df_now :: millis
  ci_netstat :: exec_out
  ci_ps :: exec_out

definition analyze_result :: "host \<Rightarrow> monitor \<Rightarrow> check_result \<Rightarrow> monitor" where
  "analyze_result h s r = (case r of Fulfilled v \<Rightarrow> analyzeMetrics h v s | _ \<Rightarrow> s)"

text \<open>
  \<open>performSystemCheck\<close>: the five checks, then \<open>analyzeMetrics\<close> on every fulfilled
  result in the order of the checks (on the host \<open>h\<close>), then the recovery sweep, then
  the status line (at \<open>tlog\<close>). A check that never settles leaves \<open>Promise.allSettled\<close>
  pending: the cycle does not go on, and no status is produced.
\<close>

definition performSystemCheck ::
  "check_inputs \<Rightarrow> host \<Rightarrow> (nat \<Rightarrow> millis) \<Rightarrow> (nat \<Rightarrow> host) \<Rightarrow> millis \<Rightarrow> monitor
   \<Rightarrow> status option \<times> monitor"
where
  "performSystemCheck inp h now hs tlog s =
     (case checkCPU (ci_now inp) (ci_cpus inp) s of (r1, s1) \<Rightarrow>
      case checkMemory (ci_now inp) (ci_totalmem inp) (ci_freemem inp) s1 of (r2, s2) \<Rightarrow>
      case checkDisk (ci_df_now inp) (ci_df inp) s2 of (r3, s3) \<Rightarrow>
      case checkNetwork (ci_netstat inp) s3 of (r4, s4) \<Rightarrow>
      case checkProcesses (ci_ps inp) s4 of (r5, s5) \<Rightarrow>
        (case r3 of
           Uncaught e \<Rightarrow> (None, s5)
         | _ \<Rightarrow>
             (let s6 = foldl (analyze_result h) s5 [r1, r2, r3, r4, r5];
                  s7 = attemptAutoRecovery now hs s6
              in (Some (logStatus tlog s7), s7))))"

section \<open>ReportGenerator\<close>










section \<open>Example inputs\<close>

text \<open>A host on which every command, connection and request succeeds, and one on which
  every one of them fails.\<close>

definition quiet_host :: host where
  "quiet_host =
     \<lparr>h_now = 400000, h_exists = (\<lambda>p. True), h_exec = (\<lambda>c. None),
      h_connect = (\<lambda>p. True), h_get = (\<lambda>u. HttpResponse 200 10),
      h_mem_throws = None, h_disk_throws = None\<rparr>"

definition failing_host :: host where
  "failing_host =
     \<lparr>h_now = 400000, h_exists = (\<lambda>p. False),
      h_exec = (\<lambda>c. Some ''Command failed''), h_connect = (\<lambda>p. False),
      h_get = (\<lambda>u. HttpError ''connect ECONNREFUSED''),
      h_mem_throws = Some ''failed'', h_disk_throws = Some ''failed''\<rparr>"

text \<open>
  Five alerts for a sweep at time 400000: an old critical one whose remediation is the
  application restart, an old warning, a recent critical one, an old critical one with
  no remediation, and an old critical one that is already acknowledged.
\<close>

definition sweep_example :: monitor where
  "sweep_example =
     (new_monitor 0)\<lparr>alerts :=
        [make_alert 0 ''ENDPOINT_DOWN'' (EndpointErrorData ''Frontend'' ''timeout'' 0),
         make_alert 0 ''HIGH_CPU'' (UsageData (Num 92) 80 0),
         make_alert 350000 ''HIGH_DISK'' (UsageData (Num 95) 90 350000),
         make_alert 1000 ''SERVICE_RESTART_FAILED'' (ServiceData ''redis'' 1000),
         (make_alert 0 ''HIGH_DISK'' (UsageData (Num 95) 90 0))\<lparr>acknowledged := True\<rparr>]\<rparr>"

text \<open>Two disk alerts, both older than five minutes at time 400000.\<close>

definition two_disk_alerts :: monitor where
  "two_disk_alerts =
     (new_monitor 0)\<lparr>alerts :=
        [make_alert 0 ''HIGH_DISK'' (UsageData (Num 95) 90 0),
         make_alert 60000 ''HIGH_DISK'' (UsageData (Num 96) 90 60000)]\<rparr>"

text \<open>
  A host on which the probe command of the \<open>redis\<close> service fails and everything else
  succeeds, and that service as the constructor configures it.
\<close>

definition redis_down_host :: host where
  "redis_down_host =
     \<lparr>h_now = 30000, h_exists = (\<lambda>p. True),
      h_exec = (\<lambda>c. if c = ''redis-cli ping'' then Some ''Command failed: redis-cli ping'' else None),
      h_connect = (\<lambda>p. True), h_get = (\<lambda>u. HttpResponse 200 10),
      h_mem_throws = None, h_disk_throws = None\<rparr>"

definition redis_service :: service where
  "redis_service =
     \<lparr>svc_name = ''redis'', svc_command = Some ''redis-cli ping'', svc_port = None,
      svc_restart = ''systemctl restart redis''\<rparr>"





text \<open>
  A monitor swept at time 604800000 (seven days): its CPU sample is exactly one hour
  old, its alert exactly 24 hours old and its recovery record exactly seven days old.
\<close>

definition boundary_monitor :: monitor where
  "boundary_monitor =
     (new_monitor 0)
       \<lparr>metrics := (metrics (new_monitor 0))
          \<lparr>m_cpu := [\<lparr>cs_timestamp = 601200000, cs_usage = Num 50, cs_cores = 4\<rparr>]\<rparr>,
        alerts := [make_alert 518400000 ''HIGH_CPU'' (UsageData (Num 92) 80 518400000)],
        recoveryActions :=
          [\<lparr>action = ''memory_cleanup'', ra_service = None, ra_timestamp = 0,
            ra_actions = None, success = True, ra_error = None\<rparr>]\<rparr>"

text \<open>
  The readings of the cycle of the specification's example: one CPU with 8 idle ticks
  out of 100 (92 percent), 600 of 1000 bytes of memory in use (60 percent), a \<open>df\<close>
  output with 95 percent, a failing \<open>netstat\<close> and a \<open>ps\<close> output with one process.
\<close>

definition spec_cycle :: check_inputs where
  "spec_cycle =
     \<lparr>ci_now = 1000,
      ci_cpus = [\<lparr>t_user = 80, t_nice = 2, t_sys = 10, t_idle = 8, t_irq = 0\<rparr>],
      ci_totalmem = 1000, ci_freemem = 400,
      ci_df = ExecOk (''Filesystem Size Used Avail Use% Mounted on'' @ [CHR 0x0A]
                      @ ''/dev/sda1 50G 47G 3G 95% /'' @ [CHR 0x0A]),
      ci_df_now = 1010,
      ci_netstat = ExecError ''netstat: not found'',
      ci_ps = ExecOk (''USER PID %CPU %MEM VSZ RSS TTY STAT START TIME COMMAND'' @ [CHR 0x0A]
                      @ ''root 1 0.0 0.1 1000 500 ? Ss 10:00 0:01 node server.js'')\<rparr>"

section \<open>Properties of the AlertManager\<close>

lemma triggerAlert_appends:
  "alerts (triggerAlert now ty d s) =
     alerts s @ [\<lparr>al_type = ty, al_severity = getAlertSeverity ty, al_data = d,
                  al_timestamp = now, acknowledged = False\<rparr>]"
  by (simp add: triggerAlert_def make_alert_def)

lemma triggerAlert_frame:
  "recoveryActions (triggerAlert now ty d s) = recoveryActions s"
  "metrics (triggerAlert now ty d s) = metrics s"
  "cfg (triggerAlert now ty d s) = cfg s"
  "arrays (triggerAlert now ty d s) = arrays s"
  by (simp_all add: triggerAlert_def)

text \<open>
  The eight types of the table get the severity the table gives them, and the alert
  \<open>triggerAlert\<close> stores carries \<open>getAlertSeverity\<close> of its type.
\<close>

lemma getAlertSeverity_listed:
  "getAlertSeverity ''HIGH_CPU'' = Sev ''warning'' \<and>
   getAlertSeverity ''HIGH_MEMORY'' = Sev ''warning'' \<and>
   getAlertSeverity ''ENDPOINT_ERROR'' = Sev ''warning'' \<and>
   getAlertSeverity ''HIGH_RESPONSE_TIME'' = Sev ''warning'' \<and>
   getAlertSeverity ''HIGH_DISK'' = Sev ''critical'' \<and>
   getAlertSeverity ''SERVICE_DOWN'' = Sev ''critical'' \<and>
   getAlertSeverity ''SERVICE_RESTART_FAILED'' = Sev ''critical'' \<and>
   getAlertSeverity ''ENDPOINT_DOWN'' = Sev ''critical''"
  by (simp add: getAlertSeverity_def severityMap_def)

theorem triggerAlert_severity_from_table:
  "al_severity (last (alerts (triggerAlert now ty d s))) = getAlertSeverity ty \<and>
   al_type (last (alerts (triggerAlert now ty d s))) = ty \<and>
   length (alerts (triggerAlert now ty d s)) = Suc (length (alerts s)) \<and>
   getAlertSeverity ''HIGH_CPU'' = Sev ''warning'' \<and>
   getAlertSeverity ''HIGH_MEMORY'' = Sev ''warning'' \<and>
   getAlertSeverity ''ENDPOINT_ERROR'' = Sev ''warning'' \<and>
   getAlertSeverity ''HIGH_RESPONSE_TIME'' = Sev ''warning'' \<and>
   getAlertSeverity ''HIGH_DISK'' = Sev ''critical'' \<and>
   getAlertSeverity ''SERVICE_DOWN'' = Sev ''critical'' \<and>
   getAlertSeverity ''SERVICE_RESTART_FAILED'' = Sev ''critical'' \<and>
   getAlertSeverity ''ENDPOINT_DOWN'' = Sev ''critical''"
  using getAlertSeverity_listed by (simp add: triggerAlert_appends)

text \<open>
  A type that is neither in the table nor the name of an inherited member gets
  \<open>info\<close>.
\<close>

theorem getAlertSeverity_default:
  assumes "ty \<notin> set (map fst severityMap)" and "ty \<notin> set object_prototype_keys"
  shows "getAlertSeverity ty = Sev ''info''"
proof -
  have "map_of severityMap ty = None"
    using assms(1) by (simp add: map_of_eq_None_iff)
  then show ?thesis
    using assms(2) by (simp add: getAlertSeverity_def)
qed

theorem getAlertSeverity_default_witness:
  "getAlertSeverity ''DISK_FULL'' = Sev ''info''"
  using getAlertSeverity_default [of "''DISK_FULL''"]
  by (simp add: severityMap_def object_prototype_keys_def)


section \<open>Properties of the RecoveryEngine\<close>

lemma push_recovery_frame:
  "alerts (push_recovery r s) = alerts s"
  "metrics (push_recovery r s) = metrics s"
  "cfg (push_recovery r s) = cfg s"
  "arrays (push_recovery r s) = arrays s"
  "recoveryActions (push_recovery r s) = recoveryActions s @ [r]"
  by (simp_all add: push_recovery_def)

lemma cleanupMemory_frame:
  "alerts (cleanupMemory h s) = alerts s"
  "metrics (cleanupMemory h s) = metrics s"
  "cfg (cleanupMemory h s) = cfg s"
  by (simp_all add: cleanupMemory_def push_recovery_frame split: option.splits)

lemma cleanupDisk_frame:
  "alerts (cleanupDisk h s) = alerts s"
  "metrics (cleanupDisk h s) = metrics s"
  "cfg (cleanupDisk h s) = cfg s"
  by (simp_all add: cleanupDisk_def push_recovery_frame Let_def split: option.splits)

lemma restartApplication_frame:
  "alerts (restartApplication h s) = alerts s"
  "metrics (restartApplication h s) = metrics s"
  "cfg (restartApplication h s) = cfg s"
  by (simp_all add: restartApplication_def push_recovery_frame split: option.splits)

lemma cleanupMemory_actions:
  "map action (recoveryActions (cleanupMemory h s)) =
     map action (recoveryActions s) @ [''memory_cleanup'']"
  by (simp add: cleanupMemory_def push_recovery_frame split: option.splits)

lemma cleanupDisk_actions:
  "map action (recoveryActions (cleanupDisk h s)) =
     map action (recoveryActions s) @ [''disk_cleanup'']"
  by (simp add: cleanupDisk_def push_recovery_frame Let_def split: option.splits)

lemma restartApplication_actions:
  "map action (recoveryActions (restartApplication h s)) =
     map action (recoveryActions s) @ [''application_restart'']"
  by (simp add: restartApplication_def push_recovery_frame split: option.splits)

lemma dispatch_alerts: "alerts (dispatch h ty s) = alerts s"
  by (simp add: dispatch_def cleanupMemory_frame cleanupDisk_frame restartApplication_frame)

lemma dispatch_actions:
  "map action (recoveryActions (dispatch h ty s)) =
     map action (recoveryActions s) @
       (if ty = ''HIGH_DISK'' then [''disk_cleanup'']
        else if ty = ''HIGH_MEMORY'' then [''memory_cleanup'']
        else if ty = ''ENDPOINT_DOWN'' then [''application_restart'']
        else [])"
  by (simp add: dispatch_def cleanupMemory_actions cleanupDisk_actions
      restartApplication_actions)

lemma recover_one_alerts:
  "alerts (recover_one hs s i) = (alerts s)[i := (alerts s ! i)\<lparr>acknowledged := True\<rparr>]"
  by (simp add: recover_one_def acknowledge_at_def dispatch_alerts)

lemma recover_one_actions:
  "map action (recoveryActions (recover_one hs s i)) =
     map action (recoveryActions s) @
       (if al_type (alerts s ! i) = ''HIGH_DISK'' then [''disk_cleanup'']
        else if al_type (alerts s ! i) = ''HIGH_MEMORY'' then [''memory_cleanup'']
        else if al_type (alerts s ! i) = ''ENDPOINT_DOWN'' then [''application_restart'']
        else [])"
  by (simp add: recover_one_def acknowledge_at_def dispatch_actions)

lemma recover_one_type:
  "al_type (alerts (recover_one hs s j) ! i) = al_type (alerts s ! i)"
proof (cases "i = j \<and> j < length (alerts s)")
  case True
  then show ?thesis by (simp add: recover_one_alerts)
next
  case False
  then show ?thesis
    by (cases "i = j") (simp_all add: recover_one_alerts list_update_beyond)
qed

lemma sweep_alerts:
  "length (alerts (foldl (recover_one hs) s js)) = length (alerts s) \<and>
   (\<forall>i < length (alerts s).
      alerts (foldl (recover_one hs) s js) ! i =
        (if i \<in> set js then (alerts s ! i)\<lparr>acknowledged := True\<rparr> else alerts s ! i))"
proof (induction js arbitrary: s)
  case Nil
  then show ?case by simp
next
  case (Cons j js)
  let ?s1 = "recover_one hs s j"
  have len: "length (alerts ?s1) = length (alerts s)"
    by (simp add: recover_one_alerts)
  have step: "\<forall>i < length (alerts s).
      alerts ?s1 ! i = (if i = j then (alerts s ! i)\<lparr>acknowledged := True\<rparr> else alerts s ! i)"
    by (simp add: recover_one_alerts nth_list_update)
  from Cons.IH [of ?s1] len step show ?case
    by auto
qed

lemma sweep_actions:
  "map action (recoveryActions (foldl (recover_one hs) s js)) =
     map action (recoveryActions s) @
       concat (map (\<lambda>i.
         if al_type (alerts s ! i) = ''HIGH_DISK'' then [''disk_cleanup'']
         else if al_type (alerts s ! i) = ''HIGH_MEMORY'' then [''memory_cleanup'']
         else if al_type (alerts s ! i) = ''ENDPOINT_DOWN'' then [''application_restart'']
         else []) js)"
proof (induction js arbitrary: s)
  case Nil
  then show ?case by simp
next
  case (Cons j js)
  show ?case
    by (simp only: foldl_Cons Cons.IH recover_one_actions recover_one_type
        list.map concat.simps append_assoc)
qed

text \<open>
  Claim C5: on a recovery sweep the alerts selected are exactly those with severity
  \<open>critical\<close>, not acknowledged, and older than five minutes when the filter tests
  them, and each selected alert is acknowledged at the end of the sweep, whatever its
  type and whatever the host did to its remediation; every other alert is unchanged.
\<close>

theorem attemptAutoRecovery_acknowledges_selected:
  "length (alerts (attemptAutoRecovery now hs s)) = length (alerts s) \<and>
   (\<forall>i < length (alerts s).
      alerts (attemptAutoRecovery now hs s) ! i =
        (if al_severity (alerts s ! i) = Sev ''critical'' \<and> \<not> acknowledged (alerts s ! i)
            \<and> 300000 < now i - al_timestamp (alerts s ! i)
         then (alerts s ! i)\<lparr>acknowledged := True\<rparr>
         else alerts s ! i)) \<and>
   criticalAlerts now (alerts s) =
     filter (\<lambda>i. al_severity (alerts s ! i) = Sev ''critical'' \<and> \<not> acknowledged (alerts s ! i)
                  \<and> 300000 < now i - al_timestamp (alerts s ! i))
       [0..<length (alerts s)]"
proof -
  let ?js = "criticalAlerts now (alerts s)"
  have sel: "\<forall>i < length (alerts s). i \<in> set ?js \<longleftrightarrow>
      (al_severity (alerts s ! i) = Sev ''critical'' \<and> \<not> acknowledged (alerts s ! i)
       \<and> 300000 < now i - al_timestamp (alerts s ! i))"
    by (simp add: criticalAlerts_def selected_def)
  have "length (alerts (attemptAutoRecovery now hs s)) = length (alerts s)"
    using sweep_alerts [of hs s ?js] by (simp add: attemptAutoRecovery_def)
  moreover have "\<forall>i < length (alerts s).
      alerts (attemptAutoRecovery now hs s) ! i =
        (if al_severity (alerts s ! i) = Sev ''critical'' \<and> \<not> acknowledged (alerts s ! i)
            \<and> 300000 < now i - al_timestamp (alerts s ! i)
         then (alerts s ! i)\<lparr>acknowledged := True\<rparr>
         else alerts s ! i)"
  proof (intro allI impI)
    fix i assume i: "i < length (alerts s)"
    from sweep_alerts [of hs s ?js] i
    have "alerts (attemptAutoRecovery now hs s) ! i =
        (if i \<in> set ?js then (alerts s ! i)\<lparr>acknowledged := True\<rparr> else alerts s ! i)"
      by (simp add: attemptAutoRecovery_def)
    with sel i show "alerts (attemptAutoRecovery now hs s) ! i =
        (if al_severity (alerts s ! i) = Sev ''critical'' \<and> \<not> acknowledged (alerts s ! i)
            \<and> 300000 < now i - al_timestamp (alerts s ! i)
         then (alerts s ! i)\<lparr>acknowledged := True\<rparr>
         else alerts s ! i)"
      by simp
  qed
  moreover have "?js =
     filter (\<lambda>i. al_severity (alerts s ! i) = Sev ''critical'' \<and> \<not> acknowledged (alerts s ! i)
                  \<and> 300000 < now i - al_timestamp (alerts s ! i))
       [0..<length (alerts s)]"
    by (simp add: criticalAlerts_def selected_def)
  ultimately show ?thesis by blast
qed

text \<open>
  The sweep over \<open>sweep_example\<close> on the host where every command fails: the first
  and the fourth alert are selected and acknowledged, the fifth was acknowledged before.
\<close>

theorem attemptAutoRecovery_acknowledges_selected_witness:
  "length (alerts (attemptAutoRecovery (\<lambda>i. 400000) (\<lambda>i. failing_host) sweep_example)) = 5 \<and>
   acknowledged (alerts (attemptAutoRecovery (\<lambda>i. 400000) (\<lambda>i. failing_host) sweep_example) ! 0) \<and>
   \<not> acknowledged (alerts (attemptAutoRecovery (\<lambda>i. 400000) (\<lambda>i. failing_host) sweep_example) ! 1) \<and>
   \<not> acknowledged (alerts (attemptAutoRecovery (\<lambda>i. 400000) (\<lambda>i. failing_host) sweep_example) ! 2) \<and>
   acknowledged (alerts (attemptAutoRecovery (\<lambda>i. 400000) (\<lambda>i. failing_host) sweep_example) ! 3) \<and>
   acknowledged (alerts (attemptAutoRecovery (\<lambda>i. 400000) (\<lambda>i. failing_host) sweep_example) ! 4)"
proof -
  note t = attemptAutoRecovery_acknowledges_selected
    [of "\<lambda>i. 400000" "\<lambda>i. failing_host" sweep_example]
  note ex = sweep_example_def new_monitor_def make_alert_def getAlertSeverity_def
    severityMap_def
  have len: "length (alerts sweep_example) = 5"
    by (simp add: ex)
  from t len have "length (alerts (attemptAutoRecovery (\<lambda>i. 400000) (\<lambda>i. failing_host) sweep_example)) = 5"
    by simp
  moreover from t [THEN conjunct2, THEN conjunct1, rule_format, of 0] len
  have "acknowledged (alerts (attemptAutoRecovery (\<lambda>i. 400000) (\<lambda>i. failing_host) sweep_example) ! 0)"
    by (simp add: ex)
  moreover from t [THEN conjunct2, THEN conjunct1, rule_format, of 1] len
  have "\<not> acknowledged (alerts (attemptAutoRecovery (\<lambda>i. 400000) (\<lambda>i. failing_host) sweep_example) ! 1)"
    by (simp add: ex)
  moreover from t [THEN conjunct2, THEN conjunct1, rule_format, of 2] len
  have "\<not> acknowledged (alerts (attemptAutoRecovery (\<lambda>i. 400000) (\<lambda>i. failing_host) sweep_example) ! 2)"
    by (simp add: ex)
  moreover from t [THEN conjunct2, THEN conjunct1, rule_format, of 3] len
  have "acknowledged (alerts (attemptAutoRecovery (\<lambda>i. 400000) (\<lambda>i. failing_host) sweep_example) ! 3)"
    by (simp add: ex)
  moreover from t [THEN conjunct2, THEN conjunct1, rule_format, of 4] len
  have "acknowledged (alerts (attemptAutoRecovery (\<lambda>i. 400000) (\<lambda>i. failing_host) sweep_example) ! 4)"
    by (simp add: ex)
  ultimately show ?thesis by blast
qed

text \<open>
  Claim C6, as amended: the sweep attempts the remediation of a type once for every
  selected alert of that type, in the order of the alerts: one \<open>disk_cleanup\<close> record
  per selected \<open>HIGH_DISK\<close> alert, one \<open>memory_cleanup\<close> record per selected
  \<open>HIGH_MEMORY\<close> alert, one \<open>application_restart\<close> record per selected
  \<open>ENDPOINT_DOWN\<close> alert, and none for any other type.
\<close>

theorem attemptAutoRecovery_one_attempt_per_alert:
  "map action (recoveryActions (attemptAutoRecovery now hs s)) =
     map action (recoveryActions s) @
       concat (map (\<lambda>i.
         if al_type (alerts s ! i) = ''HIGH_DISK'' then [''disk_cleanup'']
         else if al_type (alerts s ! i) = ''HIGH_MEMORY'' then [''memory_cleanup'']
         else if al_type (alerts s ! i) = ''ENDPOINT_DOWN'' then [''application_restart'']
         else []) (criticalAlerts now (alerts s)))"
  by (simp only: attemptAutoRecovery_def sweep_actions)

text \<open>
  Claim C6 as stated, at most one attempt per type and sweep, fails: with two selected
  \<open>HIGH_DISK\<close> alerts the disk cleanup runs twice in one sweep.
\<close>

theorem attemptAutoRecovery_repeats_disk_cleanup:
  "criticalAlerts (\<lambda>i. 400000) (alerts two_disk_alerts) = [0, 1] \<and>
   map action (recoveryActions (attemptAutoRecovery (\<lambda>i. 400000) (\<lambda>i. quiet_host) two_disk_alerts))
     = [''disk_cleanup'', ''disk_cleanup'']"
proof -
  have sel: "criticalAlerts (\<lambda>i. 400000) (alerts two_disk_alerts) = [0, 1]"
    by (simp add: criticalAlerts_def selected_def two_disk_alerts_def make_alert_def
        getAlertSeverity_def severityMap_def new_monitor_def upt_conv_Cons)
  have "map action (recoveryActions (attemptAutoRecovery (\<lambda>i. 400000) (\<lambda>i. quiet_host) two_disk_alerts))
     = map action (recoveryActions (foldl (recover_one (\<lambda>i. quiet_host)) two_disk_alerts [0, 1]))"
    by (simp only: attemptAutoRecovery_def sel)
  also have "\<dots> = [''disk_cleanup'', ''disk_cleanup'']"
    by (simp only: sweep_actions) (simp add: two_disk_alerts_def make_alert_def new_monitor_def)
  finally show ?thesis using sel by simp
qed

section \<open>Properties of alert evaluation\<close>

lemma analyzeMetrics_alert_types:
  "map al_type (alerts (analyzeMetrics h v s)) =
     map al_type (alerts s)
     @ (if exceeds v (th_cpu (alertThresholds (cfg s))) then [''HIGH_CPU''] else [])
     @ (if exceeds v (th_memory (alertThresholds (cfg s))) then [''HIGH_MEMORY''] else [])
     @ (if exceeds v (th_disk (alertThresholds (cfg s))) then [''HIGH_DISK''] else [])"
  by (simp add: analyzeMetrics_def Let_def cleanupMemory_frame cleanupDisk_frame
      triggerAlert_appends)

lemma analyzeMetrics_actions:
  "map action (recoveryActions (analyzeMetrics h v s)) =
     map action (recoveryActions s)
     @ (if exceeds v (th_memory (alertThresholds (cfg s))) then [''memory_cleanup''] else [])
     @ (if exceeds v (th_disk (alertThresholds (cfg s))) then [''disk_cleanup''] else [])"
  by (simp add: analyzeMetrics_def Let_def cleanupMemory_actions cleanupDisk_actions
      triggerAlert_frame)

text \<open>
  \<open>analyzeMetrics\<close> compares the \<open>usage\<close> of any value with the three thresholds in
  turn: it raises \<open>HIGH_CPU\<close>, \<open>HIGH_MEMORY\<close> and \<open>HIGH_DISK\<close> for each threshold the
  usage exceeds, and runs the memory and the disk cleanup with the last two; a value
  without a \<open>usage\<close>, or with a usage of 0 or \<open>NaN\<close>, raises nothing.
\<close>

theorem analyzeMetrics_compares_with_all_thresholds:
  "map al_type (alerts (analyzeMetrics h v s)) =
     map al_type (alerts s)
     @ (if exceeds v (th_cpu (alertThresholds (cfg s))) then [''HIGH_CPU''] else [])
     @ (if exceeds v (th_memory (alertThresholds (cfg s))) then [''HIGH_MEMORY''] else [])
     @ (if exceeds v (th_disk (alertThresholds (cfg s))) then [''HIGH_DISK''] else []) \<and>
   map action (recoveryActions (analyzeMetrics h v s)) =
     map action (recoveryActions s)
     @ (if exceeds v (th_memory (alertThresholds (cfg s))) then [''memory_cleanup''] else [])
     @ (if exceeds v (th_disk (alertThresholds (cfg s))) then [''disk_cleanup''] else []) \<and>
   exceeds v t =
     (case usage_of v of None \<Rightarrow> False | Some u \<Rightarrow> truthy u \<and> js_gt u t)"
  by (simp only: analyzeMetrics_alert_types analyzeMetrics_actions exceeds_def simp_thms)

text \<open>
  Claim C1: a sampled value raises exactly one alert, of the type of the metric it was
  sampled for, when it exceeds that metric's threshold, and none otherwise; a CPU
  sample never raises \<open>HIGH_MEMORY\<close> or \<open>HIGH_DISK\<close>. The code does not do this:
  \<open>analyzeMetrics\<close> compares the one property \<open>usage\<close> of whatever value it is given
  with all three thresholds (\<open>analyzeMetrics_alert_types\<close>). The theorem evaluates it
  with the thresholds 80, 85 and 90 on the CPU sample of 92 percent, which raises the
  three alerts and runs both cleanups, and on a memory sample of 82 percent, below the
  memory threshold, which raises \<open>HIGH_CPU\<close>.
\<close>

theorem analyzeMetrics_cpu_sample_raises_three_alerts:
  "map al_type (alerts (analyzeMetrics quiet_host (CpuValue (Num 92) 4) (new_monitor 0)))
     = [''HIGH_CPU'', ''HIGH_MEMORY'', ''HIGH_DISK''] \<and>
   map al_severity (alerts (analyzeMetrics quiet_host (CpuValue (Num 92) 4) (new_monitor 0)))
     = [Sev ''warning'', Sev ''warning'', Sev ''critical''] \<and>
   map action (recoveryActions (analyzeMetrics quiet_host (CpuValue (Num 92) 4) (new_monitor 0)))
     = [''memory_cleanup'', ''disk_cleanup''] \<and>
   map al_type (alerts (analyzeMetrics quiet_host (MemoryValue (Num 82) 100 82 18) (new_monitor 0)))
     = [''HIGH_CPU'']"
  by (simp add: analyzeMetrics_def Let_def exceeds_def new_monitor_def default_config_def
      default_thresholds_def triggerAlert_def make_alert_def cleanupMemory_def
      cleanupDisk_def push_recovery_def quiet_host_def getAlertSeverity_def severityMap_def)

section \<open>Properties of the disk cleanup\<close>

lemma cleanup_callbacks_recoveryActions:
  "recoveryActions (cleanup_callbacks a cbs s) = recoveryActions s"
  by (induction a cbs s rule: cleanup_callbacks.induct) (simp_all add: cleanup_callback_def)

text \<open>
  Every call of \<open>cleanupDisk\<close> appends exactly one record with the action
  \<open>disk_cleanup\<close>, and the \<open>success\<close> of that record is false on every host; the
  callbacks that run later never touch the records.
\<close>

theorem cleanupDisk_never_successful:
  "recoveryActions (cleanupDisk h s) =
     recoveryActions s @
       [\<lparr>action = ''disk_cleanup'', ra_service = None, ra_timestamp = h_now h,
         ra_actions = (case h_disk_throws h of None \<Rightarrow> Some (length (arrays s)) | Some msg \<Rightarrow> None),
         success = False, ra_error = h_disk_throws h\<rparr>] \<and>
   recoveryActions (cleanup_callbacks a cbs (cleanupDisk h s)) = recoveryActions (cleanupDisk h s)"
  by (simp add: cleanupDisk_def Let_def push_recovery_def cleanup_callbacks_recoveryActions
      split: option.splits)

text \<open>
  Claim C3: every call of \<open>cleanupDisk\<close> appends one \<open>disk_cleanup\<close> record whose
  \<open>success\<close> is true exactly when one of the four sub-actions succeeded. The record is
  appended, but the code computes \<open>success\<close> from \<open>cleanupActions.length\<close> before any
  callback has run. The theorem evaluates the code on the host where both directories
  exist and all four commands succeed: the four tags end up in the array the record
  refers to, and the record's \<open>success\<close> is false.
\<close>

theorem cleanupDisk_all_succeed_success_false:
  "cleanupDisk_started quiet_host =
     [''logs_cleaned'', ''temp_files_cleaned'', ''old_backups_cleaned'', ''npm_cache_cleaned''] \<and>
   recoveryActions
     (cleanup_callbacks (length (arrays s))
        [(''logs_cleaned'', False), (''temp_files_cleaned'', False),
         (''old_backups_cleaned'', False), (''npm_cache_cleaned'', False)]
        (cleanupDisk quiet_host s)) =
     recoveryActions s @
       [\<lparr>action = ''disk_cleanup'', ra_service = None, ra_timestamp = 400000,
         ra_actions = Some (length (arrays s)), success = False, ra_error = None\<rparr>] \<and>
   arrays
     (cleanup_callbacks (length (arrays s))
        [(''logs_cleaned'', False), (''temp_files_cleaned'', False),
         (''old_backups_cleaned'', False), (''npm_cache_cleaned'', False)]
        (cleanupDisk quiet_host s)) ! length (arrays s) =
     [''logs_cleaned'', ''temp_files_cleaned'', ''old_backups_cleaned'', ''npm_cache_cleaned'']"
  by (simp add: cleanupDisk_started_def cleanupDisk_def Let_def push_recovery_def
      cleanup_callback_def quiet_host_def)

section \<open>Properties of the MetricsCollector\<close>

lemma checkNetwork_state: "snd (checkNetwork out s) = s"
  by (simp add: checkNetwork_def Let_def split: exec_out.splits)

lemma checkProcesses_state: "snd (checkProcesses out s) = s"
  by (simp add: checkProcesses_def Let_def split: exec_out.splits)



section \<open>Properties of the ServiceHealthChecker\<close>

lemma severity_SERVICE_DOWN: "getAlertSeverity ''SERVICE_DOWN'' = Sev ''critical''"
  by (simp add: getAlertSeverity_def severityMap_def)

lemma severity_SERVICE_RESTART_FAILED:
  "getAlertSeverity ''SERVICE_RESTART_FAILED'' = Sev ''critical''"
  by (simp add: getAlertSeverity_def severityMap_def)

lemma restartService_effects:
  "alerts (fst (restartService h svc s)) = alerts s"
  "recoveryActions (fst (restartService h svc s)) =
     recoveryActions s @
       [\<lparr>action = ''service_restart'', ra_service = Some (svc_name svc),
         ra_timestamp = h_now h, ra_actions = None,
         success = (h_exec h (svc_restart svc) = None),
         ra_error = h_exec h (svc_restart svc)\<rparr>]"
  by (simp_all add: restartService_def push_recovery_def split: option.splits)

lemma check_service_effects:
  "alerts (fst (check_service h svc s)) =
     alerts s @
       (if \<not> isHealthy h svc
        then [\<lparr>al_type = ''SERVICE_DOWN'', al_severity = Sev ''critical'',
                al_data = ServiceData (svc_name svc) (h_now h), al_timestamp = h_now h,
                acknowledged = False\<rparr>]
        else [])"
  "recoveryActions (fst (check_service h svc s)) =
     recoveryActions s @
       (if \<not> isHealthy h svc
        then [\<lparr>action = ''service_restart'', ra_service = Some (svc_name svc),
                ra_timestamp = h_now h, ra_actions = None,
                success = (h_exec h (svc_restart svc) = None),
                ra_error = h_exec h (svc_restart svc)\<rparr>]
        else [])"
  by (simp_all add: check_service_def restartService_effects triggerAlert_appends
      triggerAlert_frame severity_SERVICE_DOWN)

lemma checkServices_loop_effects:
  "alerts (fst (checkServices_loop hs i svcs (s, timers))) =
     alerts s @
       map (\<lambda>(i, svc).
              \<lparr>al_type = ''SERVICE_DOWN'', al_severity = Sev ''critical'',
               al_data = ServiceData (svc_name svc) (h_now (hs i)),
               al_timestamp = h_now (hs i), acknowledged = False\<rparr>)
         (filter (\<lambda>(i, svc). \<not> isHealthy (hs i) svc) (enumerate i svcs)) \<and>
   recoveryActions (fst (checkServices_loop hs i svcs (s, timers))) =
     recoveryActions s @
       map (\<lambda>(i, svc).
              \<lparr>action = ''service_restart'', ra_service = Some (svc_name svc),
               ra_timestamp = h_now (hs i), ra_actions = None,
               success = (h_exec (hs i) (svc_restart svc) = None),
               ra_error = h_exec (hs i) (svc_restart svc)\<rparr>)
         (filter (\<lambda>(i, svc). \<not> isHealthy (hs i) svc) (enumerate i svcs))"
proof (induction svcs arbitrary: i s timers)
  case Nil
  then show ?case by simp
next
  case (Cons svc svcs)
  obtain s' new where cs: "check_service (hs i) svc s = (s', new)"
    by (cases "check_service (hs i) svc s")
  have a: "alerts s' = alerts (fst (check_service (hs i) svc s))"
    and r: "recoveryActions s' = recoveryActions (fst (check_service (hs i) svc s))"
    by (simp_all add: cs)
  note a' = a [unfolded check_service_effects] and r' = r [unfolded check_service_effects]
  show ?case
    using Cons.IH [of "Suc i" s' "timers @ new"]
    by (simp add: cs a' r')
qed

text \<open>
  Claim C2, as amended: service checking is level-triggered. A cycle raises one
  \<open>SERVICE_DOWN\<close> alert of severity \<open>critical\<close> and runs one restart for every
  service whose probe fails in that cycle, in the order of the configuration, and does
  neither for a service whose probe succeeds; what the previous cycles found plays no
  part, since the state before the cycle only appears as the prefix of the two lists.
\<close>

theorem checkServices_level_triggered:
  "alerts (fst (checkServices hs s)) =
     alerts s @
       map (\<lambda>(i, svc).
              \<lparr>al_type = ''SERVICE_DOWN'', al_severity = Sev ''critical'',
               al_data = ServiceData (svc_name svc) (h_now (hs i)),
               al_timestamp = h_now (hs i), acknowledged = False\<rparr>)
         (filter (\<lambda>(i, svc). \<not> isHealthy (hs i) svc) (enumerate 0 (services (cfg s)))) \<and>
   recoveryActions (fst (checkServices hs s)) =
     recoveryActions s @
       map (\<lambda>(i, svc).
              \<lparr>action = ''service_restart'', ra_service = Some (svc_name svc),
               ra_timestamp = h_now (hs i), ra_actions = None,
               success = (h_exec (hs i) (svc_restart svc) = None),
               ra_error = h_exec (hs i) (svc_restart svc)\<rparr>)
         (filter (\<lambda>(i, svc). \<not> isHealthy (hs i) svc) (enumerate 0 (services (cfg s))))"
  unfolding checkServices_def by (rule checkServices_loop_effects)

lemma checkServices_loop_cfg:
  "cfg (fst (checkServices_loop hs i svcs (s, timers))) = cfg s"
proof (induction svcs arbitrary: i s timers)
  case Nil
  then show ?case by simp
next
  case (Cons svc svcs)
  obtain s' new where cs: "check_service (hs i) svc s = (s', new)"
    by (cases "check_service (hs i) svc s")
  have "cfg s' = cfg s"
    using cs by (auto simp: check_service_def restartService_def push_recovery_def
        triggerAlert_def split: if_splits option.splits)
  then show ?case
    using Cons.IH [of "Suc i" s' "timers @ new"] by (simp add: cs)
qed

lemma redis_down_unhealthy:
  "filter (\<lambda>(i, svc). \<not> isHealthy redis_down_host svc) (enumerate 0 (services default_config))
     = [(2, redis_service)]"
  by (simp add: default_config_def isHealthy_def probe_port_def redis_down_host_def
      redis_service_def enumerate_simps)

text \<open>
  Claim C2 as stated, no alert and no restart while a service stays unhealthy, fails:
  with \<open>redis\<close> down in two consecutive cycles, the second cycle raises a second
  \<open>SERVICE_DOWN\<close> alert and restarts the service a second time.
\<close>

theorem checkServices_repeats_alert_while_down:
  "map al_type (alerts (fst (checkServices (\<lambda>i. redis_down_host) (new_monitor 0))))
     = [''SERVICE_DOWN''] \<and>
   map al_type
     (alerts (fst (checkServices (\<lambda>i. redis_down_host)
        (fst (checkServices (\<lambda>i. redis_down_host) (new_monitor 0))))))
     = [''SERVICE_DOWN'', ''SERVICE_DOWN''] \<and>
   map action
     (recoveryActions (fst (checkServices (\<lambda>i. redis_down_host)
        (fst (checkServices (\<lambda>i. redis_down_host) (new_monitor 0))))))
     = [''service_restart'', ''service_restart'']"
proof -
  let ?s1 = "fst (checkServices (\<lambda>i. redis_down_host) (new_monitor 0))"
  have c0: "cfg (new_monitor 0) = default_config"
    by (simp add: new_monitor_def)
  have c1: "cfg ?s1 = default_config"
    by (simp add: checkServices_def checkServices_loop_cfg c0)
  have e0: "alerts (new_monitor 0) = []" "recoveryActions (new_monitor 0) = []"
    by (simp_all add: new_monitor_def)
  note eff = checkServices_loop_effects [of "\<lambda>i. redis_down_host" 0 "services default_config" _ "[]"]
  have a1: "map al_type (alerts ?s1) = [''SERVICE_DOWN'']"
    and r1: "map action (recoveryActions ?s1) = [''service_restart'']"
    using eff [of "new_monitor 0"]
    by (simp_all add: checkServices_def c0 e0 redis_down_unhealthy)
  have "map al_type (alerts (fst (checkServices (\<lambda>i. redis_down_host) ?s1)))
      = [''SERVICE_DOWN'', ''SERVICE_DOWN'']"
    using eff [of ?s1] a1
    by (simp add: checkServices_def [of _ ?s1] c1 redis_down_unhealthy)
  moreover have "map action (recoveryActions (fst (checkServices (\<lambda>i. redis_down_host) ?s1)))
      = [''service_restart'', ''service_restart'']"
    using eff [of ?s1] r1
    by (simp add: checkServices_def [of _ ?s1] c1 redis_down_unhealthy)
  ultimately show ?thesis using a1 by simp
qed

text \<open>
  Claim C10: when the restart command succeeds, \<open>restartService\<close> appends one record
  with \<open>success = true\<close> at once and leaves the verification pending; the
  verification, on whatever state it later runs, raises \<open>SERVICE_RESTART_FAILED\<close>
  when the service is still unhealthy and changes nothing otherwise, and in neither
  case touches the recovery records.
\<close>

theorem restartService_record_before_verification:
  assumes "h_exec h (svc_restart svc) = None"
  shows "restartService h svc s =
           (s\<lparr>recoveryActions := recoveryActions s @
                [\<lparr>action = ''service_restart'', ra_service = Some (svc_name svc),
                  ra_timestamp = h_now h, ra_actions = None, success = True,
                  ra_error = None\<rparr>]\<rparr>,
            [svc]) \<and>
         verifyRestart h' svc s2 =
           (if isHealthy h' svc then s2
            else s2\<lparr>alerts := alerts s2 @
                   [\<lparr>al_type = ''SERVICE_RESTART_FAILED'', al_severity = Sev ''critical'',
                     al_data = ServiceData (svc_name svc) (h_now h'),
                     al_timestamp = h_now h', acknowledged = False\<rparr>]\<rparr>) \<and>
         recoveryActions (verifyRestart h' svc s2) = recoveryActions s2"
  using assms
  by (simp add: restartService_def push_recovery_def verifyRestart_def triggerAlert_def
      make_alert_def severity_SERVICE_RESTART_FAILED)

theorem restartService_record_before_verification_witness:
  "h_exec quiet_host (svc_restart redis_service) = None \<and>
   map success (recoveryActions (fst (restartService quiet_host redis_service (new_monitor 0))))
     = [True] \<and>
   snd (restartService quiet_host redis_service (new_monitor 0)) = [redis_service] \<and>
   map success
     (recoveryActions
        (verifyRestart redis_down_host redis_service
           (fst (restartService quiet_host redis_service (new_monitor 0))))) = [True] \<and>
   map al_type
     (alerts
        (verifyRestart redis_down_host redis_service
           (fst (restartService quiet_host redis_service (new_monitor 0)))))
     = [''SERVICE_RESTART_FAILED'']"
proof -
  have h: "h_exec quiet_host (svc_restart redis_service) = None"
    by (simp add: quiet_host_def)
  have u: "\<not> isHealthy redis_down_host redis_service"
    by (simp add: isHealthy_def redis_down_host_def redis_service_def)
  note t = restartService_record_before_verification
    [OF h, of "new_monitor 0" redis_down_host
       "fst (restartService quiet_host redis_service (new_monitor 0))"]
  note t1 = t [THEN conjunct1]
  note t2 = t [THEN conjunct2, THEN conjunct1]
  note t3 = t [THEN conjunct2, THEN conjunct2]
  have e0: "alerts (new_monitor 0) = []" "recoveryActions (new_monitor 0) = []"
    by (simp_all add: new_monitor_def)
  have "map success (recoveryActions (fst (restartService quiet_host redis_service (new_monitor 0))))
     = [True]"
    by (simp add: t1 e0)
  moreover have "snd (restartService quiet_host redis_service (new_monitor 0)) = [redis_service]"
    by (simp add: t1)
  moreover have "map success
     (recoveryActions
        (verifyRestart redis_down_host redis_service
           (fst (restartService quiet_host redis_service (new_monitor 0))))) = [True]"
    by (simp only: t3) (simp add: t1 e0)
  moreover have "map al_type
     (alerts
        (verifyRestart redis_down_host redis_service
           (fst (restartService quiet_host redis_service (new_monitor 0)))))
     = [''SERVICE_RESTART_FAILED'']"
    by (simp only: t2) (simp add: u t1 e0)
  ultimately show ?thesis using h by blast
qed

section \<open>Properties of the ReportGenerator\<close>





section \<open>Properties of the RetentionManager\<close>

lemma window_age: "(n - w < t) = (n - t < (w::int))"
  by auto

text \<open>
  Claim C9, as amended: a sweep keeps exactly the CPU, memory and disk samples younger
  than one hour, the alerts younger than 24 hours and the recovery records younger
  than seven days, each as it was and in the order it had, and removes every element
  whose age is its window or more; nothing else of the monitor changes. The ages are
  taken at the clock reading the code compares each list with.
\<close>

theorem cleanupOldMetrics_keeps_younger_than_window:
  "cleanupOldMetrics now1 now2 now3 s =
     s\<lparr>metrics := (metrics s)
          \<lparr>m_cpu := filter (\<lambda>m. now1 - cs_timestamp m < 3600000) (m_cpu (metrics s)),
           m_memory := filter (\<lambda>m. now1 - ms_timestamp m < 3600000) (m_memory (metrics s)),
           m_disk := filter (\<lambda>m. now1 - ds_timestamp m < 3600000) (m_disk (metrics s))\<rparr>,
       alerts := filter (\<lambda>a. now2 - al_timestamp a < 86400000) (alerts s),
       recoveryActions := filter (\<lambda>r. now3 - ra_timestamp r < 604800000) (recoveryActions s)\<rparr>"
  by (simp add: cleanupOldMetrics_def Let_def window_age)

text \<open>
  Claim C9 as stated, exactly the elements older than their window are removed, fails
  on the boundary: a sample exactly one hour old, an alert exactly 24 hours old and a
  record exactly seven days old are not older than their windows, and are removed.
\<close>

theorem cleanupOldMetrics_removes_at_window_age:
  "604800000 - cs_timestamp (hd (m_cpu (metrics boundary_monitor))) = 3600000 \<and>
   604800000 - al_timestamp (hd (alerts boundary_monitor)) = 86400000 \<and>
   604800000 - ra_timestamp (hd (recoveryActions boundary_monitor)) = 604800000 \<and>
   m_cpu (metrics (cleanupOldMetrics 604800000 604800000 604800000 boundary_monitor)) = [] \<and>
   alerts (cleanupOldMetrics 604800000 604800000 604800000 boundary_monitor) = [] \<and>
   recoveryActions (cleanupOldMetrics 604800000 604800000 604800000 boundary_monitor) = []"
  by (simp add: cleanupOldMetrics_def Let_def boundary_monitor_def make_alert_def)

section \<open>Properties of the system check cycle\<close>

lemma check_frames:
  "alerts (snd (checkCPU now cpus s)) = alerts s"
  "cfg (snd (checkCPU now cpus s)) = cfg s"
  "alerts (snd (checkMemory now t f s)) = alerts s"
  "cfg (snd (checkMemory now t f s)) = cfg s"
  "alerts (snd (checkDisk now out s)) = alerts s"
  "cfg (snd (checkDisk now out s)) = cfg s"
  by (simp_all add: checkCPU_def checkMemory_def checkDisk_def Let_def push_cpu_def
      push_memory_def push_disk_def split: exec_out.splits)

lemma analyzeMetrics_cfg: "cfg (analyzeMetrics h v s) = cfg s"
  by (simp add: analyzeMetrics_def Let_def cleanupMemory_frame cleanupDisk_frame
      triggerAlert_frame)

lemma analyze_result_effects:
  "cfg (analyze_result h s r) = cfg s"
  "map al_type (alerts (analyze_result h s r)) =
     map al_type (alerts s) @ raised_types (alertThresholds (cfg s)) r"
  by (simp_all add: analyze_result_def raised_types_def analyzeMetrics_cfg
      analyzeMetrics_alert_types split: check_result.splits)

lemma analyze_results_effects:
  "cfg (foldl (analyze_result h) s rs) = cfg s \<and>
   map al_type (alerts (foldl (analyze_result h) s rs)) =
     map al_type (alerts s) @ concat (map (raised_types (alertThresholds (cfg s))) rs)"
  by (induction rs arbitrary: s) (simp_all add: analyze_result_effects)

lemma acknowledge_keeps_types:
  "map al_type (xs[j := (xs ! j)\<lparr>acknowledged := True\<rparr>]) = map al_type xs"
proof (cases "j < length xs")
  case True
  then show ?thesis by (simp add: map_update list_update_same_conv)
next
  case False
  then show ?thesis by (simp add: list_update_beyond)
qed

lemma sweep_types:
  "map al_type (alerts (foldl (recover_one hs) s js)) = map al_type (alerts s)"
proof (induction js arbitrary: s)
  case Nil
  then show ?case by simp
next
  case (Cons j js)
  have "map al_type (alerts (recover_one hs s j)) = map al_type (alerts s)"
    by (simp add: recover_one_alerts acknowledge_keeps_types)
  with Cons.IH [of "recover_one hs s j"] show ?case by simp
qed

lemma check_results_independent:
  "fst (checkCPU now cpus s) = fst (checkCPU now cpus s')"
  "fst (checkMemory now t f s) = fst (checkMemory now t f s')"
  "fst (checkDisk now out s) = fst (checkDisk now out s')"
  "fst (checkNetwork out s) = fst (checkNetwork out s')"
  "fst (checkProcesses out s) = fst (checkProcesses out s')"
  by (simp_all add: checkCPU_def checkMemory_def checkDisk_def checkNetwork_def
      checkProcesses_def Let_def split: exec_out.splits)

lemma cycle_alert_types:
  "map al_type (alerts (snd (performSystemCheck inp h now hs tlog s))) =
     map al_type (alerts s) @
       (case fst (checkDisk (ci_df_now inp) (ci_df inp) s) of
          Uncaught e \<Rightarrow> []
        | r3 \<Rightarrow>
            concat (map (raised_types (alertThresholds (cfg s)))
              [fst (checkCPU (ci_now inp) (ci_cpus inp) s),
               fst (checkMemory (ci_now inp) (ci_totalmem inp) (ci_freemem inp) s),
               r3,
               fst (checkNetwork (ci_netstat inp) s),
               fst (checkProcesses (ci_ps inp) s)]))"
proof -
  obtain r1 s1 where c1: "checkCPU (ci_now inp) (ci_cpus inp) s = (r1, s1)"
    by (cases "checkCPU (ci_now inp) (ci_cpus inp) s")
  obtain r2 s2 where c2: "checkMemory (ci_now inp) (ci_totalmem inp) (ci_freemem inp) s1 = (r2, s2)"
    by (cases "checkMemory (ci_now inp) (ci_totalmem inp) (ci_freemem inp) s1")
  obtain r3 s3 where c3: "checkDisk (ci_df_now inp) (ci_df inp) s2 = (r3, s3)"
    by (cases "checkDisk (ci_df_now inp) (ci_df inp) s2")
  obtain r4 s4 where c4: "checkNetwork (ci_netstat inp) s3 = (r4, s4)"
    by (cases "checkNetwork (ci_netstat inp) s3")
  obtain r5 s5 where c5: "checkProcesses (ci_ps inp) s4 = (r5, s5)"
    by (cases "checkProcesses (ci_ps inp) s4")
  have r: "fst (checkCPU (ci_now inp) (ci_cpus inp) s) = r1"
      "fst (checkMemory (ci_now inp) (ci_totalmem inp) (ci_freemem inp) s) = r2"
      "fst (checkDisk (ci_df_now inp) (ci_df inp) s) = r3"
      "fst (checkNetwork (ci_netstat inp) s) = r4"
      "fst (checkProcesses (ci_ps inp) s) = r5"
    using c1 check_results_independent(2) [of _ _ _ s s1] c2
      check_results_independent(3) [of _ _ s s2] c3
      check_results_independent(4) [of _ s s3] c4
      check_results_independent(5) [of _ s s4] c5
    by simp_all
  have s1: "alerts s1 = alerts s" "cfg s1 = cfg s"
    using check_frames(1,2) [of "ci_now inp" "ci_cpus inp" s] by (simp_all add: c1)
  have s2: "alerts s2 = alerts s" "cfg s2 = cfg s"
    using check_frames(3,4) [of "ci_now inp" "ci_totalmem inp" "ci_freemem inp" s1]
    by (simp_all add: c2 s1)
  have s3: "alerts s3 = alerts s" "cfg s3 = cfg s"
    using check_frames(5,6) [of "ci_df_now inp" "ci_df inp" s2] by (simp_all add: c3 s2)
  have s4: "s4 = s3"
    using checkNetwork_state [of "ci_netstat inp" s3] by (simp add: c4)
  have s5: "s5 = s4"
    using checkProcesses_state [of "ci_ps inp" s4] by (simp add: c5)
  have s5': "alerts s5 = alerts s" "cfg s5 = cfg s"
    by (simp_all add: s5 s4 s3)
  show ?thesis
    unfolding r
    by (cases r3)
      (simp_all add: performSystemCheck_def c1 c2 c3 c4 c5 Let_def attemptAutoRecovery_def
        sweep_types analyze_results_effects s5' del: foldl_Cons foldl_Nil)
qed

text \<open>
  The alerts a cycle raises are, for each of the five checks in order, the alerts
  \<open>analyzeMetrics\<close> raises for its result: each fulfilled check with a \<open>usage\<close> is
  compared with all three thresholds. The recovery sweep that follows changes no type.
  When the \<open>df\<close> callback raises, the cycle stops before the analysis.
\<close>

theorem performSystemCheck_alert_types:
  "map al_type (alerts (snd (performSystemCheck inp h now hs tlog s))) =
     map al_type (alerts s) @
       (case fst (checkDisk (ci_df_now inp) (ci_df inp) s) of
          Uncaught e \<Rightarrow> []
        | r3 \<Rightarrow>
            concat (map (raised_types (alertThresholds (cfg s)))
              [fst (checkCPU (ci_now inp) (ci_cpus inp) s),
               fst (checkMemory (ci_now inp) (ci_totalmem inp) (ci_freemem inp) s),
               r3,
               fst (checkNetwork (ci_netstat inp) s),
               fst (checkProcesses (ci_ps inp) s)]))"
  by (rule cycle_alert_types)

lemma spec_cycle_results:
  "fst (checkCPU 1000 (ci_cpus spec_cycle) s) = Fulfilled (CpuValue (Num 92) 1)"
  "fst (checkMemory 1000 1000 400 s) = Fulfilled (MemoryValue (Num 60) 1000 600 400)"
  "fst (checkDisk 1010 (ci_df spec_cycle) s) =
     Fulfilled (DiskValue (Num 95) ''50G'' ''47G'' ''3G'')"
  "fst (checkNetwork (ci_netstat spec_cycle) s) = Rejected ''netstat: not found''"
  by (simp_all add: spec_cycle_def checkCPU_def checkMemory_def checkDisk_def
      checkNetwork_def Let_def ticks_def js_div_def js_sub_def trim_def is_space_def
      split_ws_def parseInt_def parse_unsigned_def dec_digit_def from_digits_def)

lemma spec_cycle_processes:
  "raised_types th (fst (checkProcesses (ci_ps spec_cycle) s)) = []"
  by (simp add: raised_types_def checkProcesses_def Let_def exceeds_def spec_cycle_def)

text \<open>
  The cycle of the specification's example, with the thresholds 80, 85 and 90: the CPU
  sample of 92 percent and the disk sample of 95 percent each raise all three alerts,
  the memory sample of 60 percent raises none.
\<close>

theorem performSystemCheck_spec_scenario:
  "map al_type
     (alerts (snd (performSystemCheck spec_cycle quiet_host (\<lambda>i. 400000) (\<lambda>i. quiet_host)
                     400000 (new_monitor 0))))
     = [''HIGH_CPU'', ''HIGH_MEMORY'', ''HIGH_DISK'', ''HIGH_CPU'', ''HIGH_MEMORY'', ''HIGH_DISK'']"
proof -
  have i: "ci_now spec_cycle = 1000" "ci_totalmem spec_cycle = 1000"
      "ci_freemem spec_cycle = 400" "ci_df_now spec_cycle = 1010"
    by (simp_all add: spec_cycle_def)
  have c: "alertThresholds (cfg (new_monitor 0)) = default_thresholds"
      "alerts (new_monitor 0) = []"
    by (simp_all add: new_monitor_def default_config_def)
  show ?thesis
    by (simp add: cycle_alert_types i c spec_cycle_results spec_cycle_processes)
      (simp add: raised_types_def exceeds_def default_thresholds_def)
qed

section \<open>Further properties\<close>

text \<open>
  When the restart command fails, \<open>restartService\<close> appends one record with
  \<open>success = false\<close> and the error, and sets no timer.
\<close>

theorem restartService_failed_command:
  assumes "h_exec h (svc_restart svc) = Some msg"
  shows "restartService h svc s =
           (s\<lparr>recoveryActions := recoveryActions s @
                [\<lparr>action = ''service_restart'', ra_service = Some (svc_name svc),
                  ra_timestamp = h_now h, ra_actions = None, success = False,
                  ra_error = Some msg\<rparr>]\<rparr>,
            [])"
  using assms by (simp add: restartService_def push_recovery_def)

theorem restartService_failed_command_witness:
  "h_exec failing_host (svc_restart redis_service) = Some ''Command failed'' \<and>
   map success (recoveryActions (fst (restartService failing_host redis_service (new_monitor 0))))
     = [False] \<and>
   snd (restartService failing_host redis_service (new_monitor 0)) = []"
proof -
  have h: "h_exec failing_host (svc_restart redis_service) = Some ''Command failed''"
    by (simp add: failing_host_def)
  have e0: "recoveryActions (new_monitor 0) = []"
    by (simp add: new_monitor_def)
  show ?thesis
    using h by (simp add: restartService_failed_command [OF h] e0)
qed

text \<open>
  An alert \<open>triggerAlert\<close> creates with one of the four types of severity \<open>warning\<close>
  is never selected by the recovery sweep, whatever its age; so the sweep's branch for
  \<open>HIGH_MEMORY\<close> does not run for an alert the monitor raised itself.
\<close>

theorem sweep_never_selects_memory_alert:
  "\<not> selected now (make_alert t ''HIGH_MEMORY'' d) \<and>
   \<not> selected now (make_alert t ''HIGH_CPU'' d) \<and>
   \<not> selected now (make_alert t ''ENDPOINT_ERROR'' d) \<and>
   \<not> selected now (make_alert t ''HIGH_RESPONSE_TIME'' d)"
  by (simp add: selected_def make_alert_def getAlertSeverity_def severityMap_def)

text \<open>
  A request that fails, or that is answered with a status of 500 or more, is not
  recorded among the responses of its endpoint (so the availability of the report does
  not count it); it raises \<open>ENDPOINT_DOWN\<close> with severity \<open>critical\<close>.
\<close>

theorem check_endpoint_failure_not_recorded:
  "m_responseTimes (metrics (endpoint_failed h ep msg s)) = m_responseTimes (metrics s) \<and>
   alerts (endpoint_failed h ep msg s) =
     alerts s @
       [\<lparr>al_type = ''ENDPOINT_DOWN'', al_severity = Sev ''critical'',
         al_data = EndpointErrorData (ep_name ep) msg (h_now h), al_timestamp = h_now h,
         acknowledged = False\<rparr>] \<and>
   check_endpoint (h\<lparr>h_get := (\<lambda>u. HttpResponse 503 responseTime)\<rparr>) ep s =
     endpoint_failed (h\<lparr>h_get := (\<lambda>u. HttpResponse 503 responseTime)\<rparr>) ep
       (''Request failed with status code '' @ show_nat 503) s \<and>
   check_endpoint (h\<lparr>h_get := (\<lambda>u. HttpError msg)\<rparr>) ep s =
     endpoint_failed (h\<lparr>h_get := (\<lambda>u. HttpError msg)\<rparr>) ep msg s"
  by (simp add: endpoint_failed_def check_endpoint_def triggerAlert_def make_alert_def
      getAlertSeverity_def severityMap_def)

end
